theory Spec2Isabelle
  imports Complex_Main
begin

section \<open>Values, errors and tensors\<close>

text \<open>
  The development follows \<^verbatim>\<open>train.py\<close>, \<^verbatim>\<open>eval.py\<close> and \<^verbatim>\<open>network/model.py\<close>.
  Every exception of the Python code is a value of type \<open>error\<close>; a computation that may
  raise has type \<open>error + 'a\<close>, with \<open>Inl\<close> for the exception.
\<close>

datatype error =
    KeyError string
  | TypeError string
  | ValueError string
  | RuntimeError string
  | IndexError string
  | AttributeError string
  | ZeroDivisionError

definition ebind :: "error + 'a \<Rightarrow> ('a \<Rightarrow> error + 'b) \<Rightarrow> error + 'b" where
  "ebind m f = (case m of Inl e \<Rightarrow> Inl e | Inr v \<Rightarrow> f v)"

text \<open>
  A tensor entry is a finite number, modelled by a real (rounding and overflow are left
  out of the model), or the not-a-number value that \<^verbatim>\<open>torch.mean\<close> returns on an empty
  selection. Arithmetic propagates \<open>NaN\<close> as IEEE arithmetic does.
\<close>

datatype num = Num real | NaN

fun nadd :: "num \<Rightarrow> num \<Rightarrow> num" where
  "nadd (Num a) (Num b) = Num (a + b)"
| "nadd _ _ = NaN"

fun nsub :: "num \<Rightarrow> num \<Rightarrow> num" where
  "nsub (Num a) (Num b) = Num (a - b)"
| "nsub _ _ = NaN"

fun nmul :: "num \<Rightarrow> num \<Rightarrow> num" where
  "nmul (Num a) (Num b) = Num (a * b)"
| "nmul _ _ = NaN"

fun nrelu :: "num \<Rightarrow> num" where
  "nrelu (Num a) = Num (max 0 a)"
| "nrelu NaN = NaN"

fun nexp :: "num \<Rightarrow> num" where
  "nexp (Num a) = Num (exp a)"
| "nexp NaN = NaN"

text \<open>
  Division. A zero divisor gives \<open>NaN\<close> here; the model divides by a sum of exponentials
  (positive) and by the accumulation count, where the driver raises before the quotient
  by zero is used.
\<close>

fun ndiv :: "num \<Rightarrow> num \<Rightarrow> num" where
  "ndiv (Num a) (Num b) = (if b = 0 then NaN else Num (a / b))"
| "ndiv _ _ = NaN"

fun nsqrt :: "num \<Rightarrow> num" where
  "nsqrt (Num a) = (if a < 0 then NaN else Num (sqrt a))"
| "nsqrt NaN = NaN"

definition nsum :: "num list \<Rightarrow> num" where
  "nsum xs = foldr nadd xs (Num 0)"

text \<open>\<^verbatim>\<open>torch.mean\<close>: the sum divided by the number of entries; \<open>0 / 0\<close> on no entries.\<close>

definition nmean :: "num list \<Rightarrow> num" where
  "nmean xs = (if xs = [] then NaN else nmul (nsum xs) (Num (1 / real (length xs))))"

text \<open>
  A tensor is one-dimensional or a matrix that carries its shape (rows, columns) beside
  its rows, so that a matrix with no rows still has a column count.
\<close>

datatype tensor = Vec "num list" | Mat nat nat "num list list"


type_synonym output_bundle = "string \<rightharpoonup> tensor"

text \<open>\<^verbatim>\<open>d[k]\<close> on a dict.\<close>

definition getitem :: "(string \<rightharpoonup> 'v) \<Rightarrow> string \<Rightarrow> error + 'v" where
  "getitem d k = (case d k of None \<Rightarrow> Inl (KeyError k) | Some v \<Rightarrow> Inr v)"

text \<open>
  \<^verbatim>\<open>F.one_hot(labels, num_classes=2).float()\<close>: raises when a class id is negative or
  not below the number of classes.
\<close>

definition one_hot :: "int list \<Rightarrow> error + num list list" where
  "one_hot labels =
     (if list_all (\<lambda>l. 0 \<le> l \<and> l < 2) labels
      then Inr (map (\<lambda>l. [Num (if l = 0 then 1 else 0), Num (if l = 1 then 1 else 0)]) labels)
      else Inl (RuntimeError ''one_hot''))"

text \<open>\<^verbatim>\<open>t.mean(dim=1)\<close>: a one-dimensional tensor has no dimension 1.\<close>

definition mean_dim1 :: "tensor \<Rightarrow> error + num list" where
  "mean_dim1 t = (case t of Vec _ \<Rightarrow> Inl (IndexError ''dim'')
     | Mat n m rs \<Rightarrow> Inr (map nmean rs))"

text \<open>\<^verbatim>\<open>v[mask]\<close> with a boolean mask: the shapes must agree.\<close>

definition index_mask :: "num list \<Rightarrow> bool list \<Rightarrow> error + num list" where
  "index_mask v msk =
     (if length v = length msk then Inr (map fst (filter snd (zip v msk)))
      else Inl (IndexError ''mask''))"

text \<open>\<^verbatim>\<open>t.t()\<close>, \<^verbatim>\<open>torch.mm\<close> and \<^verbatim>\<open>torch.norm\<close> (the Frobenius norm).\<close>

definition transpose_t :: "tensor \<Rightarrow> tensor" where
  "transpose_t t = (case t of Vec v \<Rightarrow> Vec v
     | Mat n m rs \<Rightarrow> Mat m n (map (\<lambda>j. map (\<lambda>r. r ! j) rs) [0..<m]))"

definition mm :: "tensor \<Rightarrow> tensor \<Rightarrow> error + tensor" where
  "mm a b = (case (a, b) of
       (Mat n m ra, Mat m' p rb) \<Rightarrow>
         if m = m'
         then Inr (Mat n p (map (\<lambda>r. map (\<lambda>j. nsum (map2 nmul r (map (\<lambda>rb'. rb' ! j) rb))) [0..<p]) ra))
         else Inl (RuntimeError ''mm shape'')
     | _ \<Rightarrow> Inl (RuntimeError ''mm dim''))"

definition norm_t :: "tensor \<Rightarrow> num" where
  "norm_t t = nsqrt (nsum (map (\<lambda>x. nmul x x)
       (case t of Vec v \<Rightarrow> v | Mat n m rs \<Rightarrow> concat rs)))"

section \<open>The staged loss\<close>

record losses =
  cls_loss :: num
  incons_loss :: num
  orth_loss :: num

type_synonym criterion = "tensor \<Rightarrow> num list list \<Rightarrow> error + num"

text \<open>
  The ramp of the last phase,
  \<^verbatim>\<open>0.3 * min(1.0, (epoch-0.2*max_epochs)/(0.8*max_epochs))\<close>. Python's float division
  raises on a zero divisor.
\<close>

definition dynamic_weight :: "int \<Rightarrow> int \<Rightarrow> error + real" where
  "dynamic_weight epoch max_epochs =
     (if 0.8 * real_of_int max_epochs = 0 then Inl ZeroDivisionError
      else Inr (0.3 * min 1 ((real_of_int epoch - 0.2 * real_of_int max_epochs)
                               / (0.8 * real_of_int max_epochs))))"

text \<open>
  The consistency term of the last phase (lines 75 to 84 of \<^verbatim>\<open>train.py\<close>): the scores are
  averaged over the inner axis, the batch is split by the first one-hot column, and the
  two hinge terms are added.
\<close>

definition consistency_loss :: "tensor \<Rightarrow> num list list \<Rightarrow> error + num" where
  "consistency_loss incons_scores labels =
     ebind (mean_dim1 incons_scores) (\<lambda>scores.
     let real_mask = map (\<lambda>row. row ! 0 = Num 1) labels;
         fake_mask = map Not real_mask
     in ebind (index_mask scores real_mask) (\<lambda>reals.
        let term1 = nrelu (nsub (nmean reals) (Num 0.1))
        in ebind (index_mask scores fake_mask) (\<lambda>fakes.
           let term2 = nrelu (nsub (Num 0.3) (nmean fakes))
           in Inr (nadd term1 term2))))"

text \<open>
  The orthogonality term of line 89:
  \<^verbatim>\<open>torch.norm(torch.mm(outputs['dama_feats'].t(), outputs['tcm_feats']))**2\<close>.
\<close>

definition orth_term :: "output_bundle \<Rightarrow> error + num" where
  "orth_term outputs =
     ebind (getitem outputs ''dama_feats'') (\<lambda>d.
     ebind (getitem outputs ''tcm_feats'') (\<lambda>t.
     ebind (mm (transpose_t d) t) (\<lambda>prod.
     let n = norm_t prod in Inr (nmul n n))))"

definition combined_loss ::
  "output_bundle \<Rightarrow> int list \<Rightarrow> criterion \<Rightarrow> int \<Rightarrow> int \<Rightarrow> error + (num \<times> losses)" where
  "combined_loss outputs labels criterion epoch max_epochs =
     ebind (getitem outputs ''logits'') (\<lambda>logits.
     ebind (one_hot labels) (\<lambda>labels'.
     ebind (getitem outputs ''tcm_inconsistency'') (\<lambda>incons_scores.
     if real_of_int epoch < 0.1 * real_of_int max_epochs then
       ebind (criterion logits labels') (\<lambda>cls.
       Inr (cls, \<lparr>cls_loss = cls, incons_loss = Num 0, orth_loss = Num 0\<rparr>))
     else
       ebind
         (if 0.1 * real_of_int max_epochs \<le> real_of_int epoch
             \<and> real_of_int epoch < 0.2 * real_of_int max_epochs
          then ebind (criterion logits labels') (\<lambda>cls. Inr (cls, 0, Num 0))
          else ebind (criterion logits labels') (\<lambda>cls.
               ebind (consistency_loss incons_scores labels') (\<lambda>incons.
               ebind (dynamic_weight epoch max_epochs) (\<lambda>w. Inr (cls, w, incons)))))
         (\<lambda>(cls, w, incons).
            ebind (orth_term outputs) (\<lambda>loss_orth.
            Inr (nadd (nadd cls (nmul (Num w) incons)) (nmul (Num 0.01) loss_orth),
                 \<lparr>cls_loss = cls, incons_loss = incons, orth_loss = loss_orth\<rparr>))))))"

section \<open>The detector\<close>

text \<open>
  A frame batch of shape \<open>[B, T, C, H, W]\<close>: the frame count \<open>T\<close> and, for each of the
  \<open>B\<close> videos, its frames. A frame is a value of an abstract type.
\<close>

datatype 'a frame_batch = FrameBatch nat "'a list list"

fun frame_count :: "'a frame_batch \<Rightarrow> nat" where
  "frame_count (FrameBatch T vs) = T"

fun size0 :: "'a frame_batch \<Rightarrow> nat" where
  "size0 (FrameBatch T vs) = length vs"

text \<open>\<^verbatim>\<open>x[:, start_idx:end_idx]\<close>.\<close>

fun slice_frames :: "'a frame_batch \<Rightarrow> nat \<Rightarrow> nat \<Rightarrow> 'a frame_batch" where
  "slice_frames (FrameBatch T vs) start_idx end_idx =
     FrameBatch (min end_idx T - min start_idx T)
       (map (\<lambda>v. take (end_idx - start_idx) (drop start_idx v)) vs)"

fun videos :: "'a frame_batch \<Rightarrow> 'a list list" where
  "videos (FrameBatch T vs) = vs"

text \<open>A frame batch is well formed when each of its videos has \<open>T\<close> frames.\<close>

fun wf_frames :: "'a frame_batch \<Rightarrow> bool" where
  "wf_frames (FrameBatch T vs) = list_all (\<lambda>v. length v = T) vs"

text \<open>The results of a list of computations, or the first exception among them.\<close>

fun collect :: "(error + 'a) list \<Rightarrow> error + 'a list" where
  "collect [] = Inr []"
| "collect (m # ms) = ebind m (\<lambda>v. ebind (collect ms) (\<lambda>vs. Inr (v # vs)))"

text \<open>
  The feature extractors and the classifier head are modules defined outside the three
  files; they are fields of the detector. The fusion gate is
  \<^verbatim>\<open>nn.Sequential(nn.Linear(dama_dim*2, 2), nn.Softmax(dim=1))\<close>, with the weight rows
  and the bias of its linear layer as fields.
\<close>

record 'a detector =
  dama_dim :: nat
  dama :: "'a frame_batch \<Rightarrow> int \<Rightarrow> error + tensor"
  tcm :: "'a frame_batch \<Rightarrow> tensor \<Rightarrow> error + (string \<rightharpoonup> tensor)"
  gate_weight :: "real list list"
  gate_bias :: "real list"
  classifier :: "tensor \<Rightarrow> error + tensor"

definition softmax :: "num list \<Rightarrow> num list" where
  "softmax xs = (let es = map nexp xs; s = nsum es in map (\<lambda>e. ndiv e s) es)"

definition linear_row :: "real list list \<Rightarrow> real list \<Rightarrow> num list \<Rightarrow> num list" where
  "linear_row W b x =
     map2 (\<lambda>w c. nadd (nsum (map2 nmul (map Num w) x)) (Num c)) W b"

text \<open>\<^verbatim>\<open>torch.cat([a, b], dim=-1)\<close>.\<close>

definition cat_last :: "tensor \<Rightarrow> tensor \<Rightarrow> error + tensor" where
  "cat_last a b = (case (a, b) of
       (Mat n m ra, Mat n' m' rb) \<Rightarrow>
         if n = n' then Inr (Mat n (m + m') (map2 (@) ra rb))
         else Inl (RuntimeError ''cat shape'')
     | (Vec u, Vec v) \<Rightarrow> Inr (Vec (u @ v))
     | _ \<Rightarrow> Inl (RuntimeError ''cat dim''))"

text \<open>
  The gate: the linear layer needs \<open>2 * dama_dim\<close> input features, and the softmax over
  dimension 1 needs a matrix.
\<close>

definition fusion_gate :: "'a detector \<Rightarrow> tensor \<Rightarrow> error + tensor" where
  "fusion_gate self t = (case t of
       Mat n m rs \<Rightarrow>
         if m = 2 * dama_dim self
         then Inr (Mat n 2 (map (\<lambda>r. softmax (linear_row (gate_weight self) (gate_bias self) r)) rs))
         else Inl (RuntimeError ''linear shape'')
     | Vec v \<Rightarrow>
         if length v = 2 * dama_dim self then Inl (IndexError ''dim'')
         else Inl (RuntimeError ''linear shape''))"

text \<open>
  \<^verbatim>\<open>gate[:, 0].unsqueeze(-1) * dama_feats + gate[:, 1].unsqueeze(-1) * tcm_feats\<close>. The two
  streams are added entry by entry; the model raises on streams of different shapes
  (broadcasting of a stream of width one is left out).
\<close>

definition fuse :: "tensor \<Rightarrow> tensor \<Rightarrow> tensor \<Rightarrow> error + tensor" where
  "fuse gate dama_feats tcm_feats = (case (gate, dama_feats, tcm_feats) of
       (Mat n k g, Mat n1 m1 d, Mat n2 m2 t) \<Rightarrow>
         if k < 2 then Inl (IndexError ''gate'')
         else if n = n1 \<and> n1 = n2 \<and> m1 = m2
         then Inr (Mat n1 m1 (map (\<lambda>(gr, dr, tr).
                 map2 (\<lambda>x y. nadd (nmul (gr ! 0) x) (nmul (gr ! 1) y)) dr tr)
               (zip g (zip d t))))
         else Inl (RuntimeError ''broadcast'')
     | _ \<Rightarrow> Inl (RuntimeError ''broadcast''))"





text \<open>
  The part shared by both paths of \<^verbatim>\<open>forward\<close> (lines 98 to 112 and 139 to 155): the
  temporal module on the whole batch, the gate, the fused features, the classifier and
  the returned dict.
\<close>

definition fuse_and_classify ::
  "'a detector \<Rightarrow> 'a frame_batch \<Rightarrow> tensor \<Rightarrow> error + output_bundle" where
  "fuse_and_classify self x dama_feats =
     ebind (tcm self x dama_feats) (\<lambda>tcm_outputs.
     ebind (getitem tcm_outputs ''consistency_score'') (\<lambda>tcm_consistency.
     ebind (getitem tcm_outputs ''tcm_features'') (\<lambda>tcm_feats.
     ebind (cat_last dama_feats tcm_feats) (\<lambda>c.
     ebind (fusion_gate self c) (\<lambda>gate.
     ebind (fuse gate dama_feats tcm_feats) (\<lambda>fused_feats.
     ebind (classifier self fused_feats) (\<lambda>logits.
     Inr [''logits'' \<mapsto> logits,
          ''dama_feats'' \<mapsto> dama_feats,
          ''tcm_consistency'' \<mapsto> tcm_consistency])))))))"

definition forward_single_gpu ::
  "'a detector \<Rightarrow> 'a frame_batch \<Rightarrow> int \<Rightarrow> error + output_bundle" where
  "forward_single_gpu self x batch_size =
     ebind (dama self x batch_size) (\<lambda>dama_feats. fuse_and_classify self x dama_feats)"

text \<open>
  The shard loop of lines 63 to 91, first its index arithmetic: the devices are visited in
  order with the running \<open>start_idx\<close>; a device with no frames is skipped, every other one
  is given the frames \<open>start_idx\<close> to \<open>end_idx\<close>. The result lists the device, the start
  and the end of every shard that is processed.
\<close>

fun shard_loop :: "nat \<Rightarrow> nat \<Rightarrow> nat list \<Rightarrow> nat \<Rightarrow> (nat \<times> nat \<times> nat) list" where
  "shard_loop frames_per_gpu remainder [] start_idx = []"
| "shard_loop frames_per_gpu remainder (gpu_id # rest) start_idx =
     (let current_frames = (if gpu_id < remainder then frames_per_gpu + 1 else frames_per_gpu)
      in if current_frames \<le> 0 then shard_loop frames_per_gpu remainder rest start_idx
         else let end_idx = start_idx + current_frames
              in (gpu_id, start_idx, end_idx) # shard_loop frames_per_gpu remainder rest end_idx)"

text \<open>
  The frames given to one device (lines 64 to 66), as a function of the device; the facts
  about the loop are stated with it.
\<close>

definition shard_size :: "nat \<Rightarrow> nat \<Rightarrow> nat \<Rightarrow> nat" where
  "shard_size frames_per_gpu remainder gpu_id =
     (if gpu_id < remainder then frames_per_gpu + 1 else frames_per_gpu)"

definition shards :: "nat \<Rightarrow> nat \<Rightarrow> (nat \<times> nat \<times> nat) list" where
  "shards T num_gpus = shard_loop (T div num_gpus) (T mod num_gpus) [0..<num_gpus] 0"

text \<open>
  Each shard is run through a copy of the extractor that is loaded with the same
  parameters, hence through the same function; the first failure ends the pass.
\<close>

fun run_shards ::
  "'a detector \<Rightarrow> 'a frame_batch \<Rightarrow> int \<Rightarrow> (nat \<times> nat \<times> nat) list \<Rightarrow> error + tensor list" where
  "run_shards self x batch_size [] = Inr []"
| "run_shards self x batch_size ((gpu_id, start_idx, end_idx) # rest) =
     ebind (dama self (slice_frames x start_idx end_idx) batch_size) (\<lambda>dama_result.
     ebind (run_shards self x batch_size rest) (\<lambda>others. Inr (dama_result # others)))"

text \<open>
  \<^verbatim>\<open>torch.mean(torch.stack(all_dama_feats, dim=0), dim=0)\<close>: the stack needs at least one
  tensor and equal shapes; the mean is taken entry by entry.
\<close>

fun shape_of :: "tensor \<Rightarrow> nat list" where
  "shape_of (Vec v) = [length v]"
| "shape_of (Mat n m rs) = [n, m]"

fun entries :: "tensor \<Rightarrow> num list" where
  "entries (Vec v) = v"
| "entries (Mat n m rs) = concat rs"

fun reshape_like :: "tensor \<Rightarrow> num list \<Rightarrow> tensor" where
  "reshape_like (Vec v) es = Vec es"
| "reshape_like (Mat n m rs) es = Mat n m (map (\<lambda>i. take m (drop (i * m) es)) [0..<n])"

definition stack_mean :: "tensor list \<Rightarrow> error + tensor" where
  "stack_mean ts = (case ts of
       [] \<Rightarrow> Inl (RuntimeError ''stack expects a non-empty list'')
     | t # rest \<Rightarrow>
         if list_all (\<lambda>u. shape_of u = shape_of t) rest
         then Inr (reshape_like t
                (map (\<lambda>k. nmean (map (\<lambda>u. entries u ! k) ts)) [0..<length (entries t)]))
         else Inl (RuntimeError ''stack shape''))"

text \<open>
  \<^verbatim>\<open>forward(self, x, batch_size)\<close>; \<open>num_gpus\<close> is the value of
  \<^verbatim>\<open>torch.cuda.device_count()\<close>.
\<close>

definition forward ::
  "'a detector \<Rightarrow> nat \<Rightarrow> 'a frame_batch \<Rightarrow> int \<Rightarrow> error + output_bundle" where
  "forward self num_gpus x batch_size =
     (if num_gpus \<le> 1 then forward_single_gpu self x batch_size
      else ebind (run_shards self x batch_size (shards (frame_count x) num_gpus))
             (\<lambda>all_dama_feats.
           ebind (stack_mean all_dama_feats) (\<lambda>dama_feats.
           fuse_and_classify self x dama_feats)))"

section \<open>Calling the detector\<close>

text \<open>
  Python binds the arguments of a call to the parameters of \<^verbatim>\<open>def forward(self, x,
  batch_size)\<close>: positional arguments fill the parameters in order; a keyword that names no
  parameter, or one that is already filled, is a \<^verbatim>\<open>TypeError\<close>; so is a surplus
  positional argument and a parameter left without a value.
\<close>

datatype 'a pyval = VFrames "'a frame_batch" | VInt int | VStr string

fun bind_kwargs ::
  "string list \<Rightarrow> (string \<rightharpoonup> 'v) \<Rightarrow> (string \<times> 'v) list \<Rightarrow> error + (string \<rightharpoonup> 'v)" where
  "bind_kwargs params m [] = Inr m"
| "bind_kwargs params m ((k, v) # rest) =
     (if \<not> List.member params k then Inl (TypeError (''unexpected keyword argument '' @ k))
      else if m k \<noteq> None then Inl (TypeError (''multiple values for argument '' @ k))
      else bind_kwargs params (m(k \<mapsto> v)) rest)"

definition bind_args ::
  "string list \<Rightarrow> 'v list \<Rightarrow> (string \<times> 'v) list \<Rightarrow> error + (string \<rightharpoonup> 'v)" where
  "bind_args params args kwargs =
     ebind (bind_kwargs params (map_of (zip params args)) kwargs) (\<lambda>m.
     if length params < length args then Inl (TypeError ''too many positional arguments'')
     else if list_all (\<lambda>p. m p \<noteq> None) params then Inr m
     else Inl (TypeError ''missing required argument''))"

type_synonym 'a model = "'a pyval list \<Rightarrow> (string \<times> 'a pyval) list \<Rightarrow> error + output_bundle"

text \<open>
  \<^verbatim>\<open>model(...)\<close> on a \<^verbatim>\<open>DeepfakeDetector\<close>: the module call passes its arguments to
  \<^verbatim>\<open>forward\<close>.
\<close>

definition call_detector :: "'a detector \<Rightarrow> nat \<Rightarrow> 'a model" where
  "call_detector self num_gpus args kwargs =
     ebind (bind_args [''x'', ''batch_size''] args kwargs) (\<lambda>m.
     case m ''x'' of
       Some (VFrames x) \<Rightarrow>
         (case m ''batch_size'' of
            Some (VInt batch_size) \<Rightarrow> forward self num_gpus x batch_size
          | _ \<Rightarrow> Inl (TypeError ''batch_size''))
     | _ \<Rightarrow> Inl (AttributeError ''shape''))"

section \<open>The epoch drivers\<close>

record 'a dataloader =
  dataset_len :: nat
  batches :: "('a frame_batch \<times> int list) list"

text \<open>The calls on the optimizer and the backward passes, in the order they happen.\<close>

datatype opt_event = ZeroGrad | Backward | Step

record train_state =
  running_loss :: num
  running_cls_loss :: num
  running_cons_loss :: num
  preds_all :: "num list"
  labels_all :: "int list"
  opt_log :: "opt_event list"

text \<open>\<^verbatim>\<open>torch.softmax(outputs['logits'], dim=1)[:, 1]\<close>.\<close>

definition fake_probs :: "tensor \<Rightarrow> error + num list" where
  "fake_probs logits = (case logits of
       Vec v \<Rightarrow> Inl (IndexError ''dim'')
     | Mat n m rs \<Rightarrow>
         if m < 2 then Inl (IndexError ''index 1'')
         else Inr (map (\<lambda>r. softmax r ! 1) rs))"

text \<open>
  Lines 109 to 111 on their own, the forward call of the driver followed by the loss of
  the batch; and the events that one pass of the loop adds to the log of the optimizer
  (lines 115 to 119). The facts about the drivers are stated with them.
\<close>

definition batch_loss ::
  "'a model \<Rightarrow> criterion \<Rightarrow> int \<Rightarrow> int \<Rightarrow> int \<Rightarrow> 'a frame_batch \<times> int list
     \<Rightarrow> error + (num \<times> losses)" where
  "batch_loss model criterion batch_size epoch max_epochs batch =
     (case batch of (frames, labels) \<Rightarrow>
      ebind (model [VFrames frames] [(''batch_size'', VInt batch_size)]) (\<lambda>outputs.
      combined_loss outputs labels criterion epoch max_epochs))"

definition batch_events :: "int \<Rightarrow> nat \<Rightarrow> opt_event list" where
  "batch_events accum_steps i =
     Backward # (if (int i + 1) mod accum_steps = 0 then [Step, ZeroGrad] else [])"

text \<open>
  The body of the loop of \<^verbatim>\<open>train_epoch\<close> (lines 107 to 129) for batch number \<open>i\<close>,
  counted from zero. The loss is divided by \<open>accum_steps\<close> as a tensor, which does not
  raise; the remainder \<^verbatim>\<open>(i+1) % accum_steps\<close> of Python integers raises on zero.
\<close>

definition train_batch ::
  "'a model \<Rightarrow> criterion \<Rightarrow> int \<Rightarrow> int \<Rightarrow> int \<Rightarrow> int \<Rightarrow> nat
     \<Rightarrow> 'a frame_batch \<times> int list \<Rightarrow> train_state \<Rightarrow> error + train_state" where
  "train_batch model criterion batch_size accum_steps epoch max_epochs i batch st =
     (case batch of (frames, labels) \<Rightarrow>
      ebind (model [VFrames frames] [(''batch_size'', VInt batch_size)]) (\<lambda>outputs.
      ebind (combined_loss outputs labels criterion epoch max_epochs) (\<lambda>(loss, losses).
      let loss' = ndiv loss (Num (real_of_int accum_steps));
          log1 = opt_log st @ [Backward]
      in if accum_steps = 0 then Inl ZeroDivisionError
         else
           let log2 = (if (int i + 1) mod accum_steps = 0 then log1 @ [Step, ZeroGrad] else log1);
               b = Num (real (size0 frames))
           in ebind (getitem outputs ''logits'') (\<lambda>logits.
              ebind (fake_probs logits) (\<lambda>preds.
              Inr \<lparr>running_loss = nadd (running_loss st) (nmul loss' b),
                   running_cls_loss = nadd (running_cls_loss st) (nmul (cls_loss losses) b),
                   running_cons_loss = nadd (running_cons_loss st) (nmul (incons_loss losses) b),
                   preds_all = preds_all st @ preds,
                   labels_all = labels_all st @ labels,
                   opt_log = log2\<rparr>)))))"

fun train_loop ::
  "'a model \<Rightarrow> criterion \<Rightarrow> int \<Rightarrow> int \<Rightarrow> int \<Rightarrow> int \<Rightarrow> nat
     \<Rightarrow> ('a frame_batch \<times> int list) list \<Rightarrow> train_state \<Rightarrow> error + train_state" where
  "train_loop model criterion batch_size accum_steps epoch max_epochs i [] st = Inr st"
| "train_loop model criterion batch_size accum_steps epoch max_epochs i (batch # rest) st =
     ebind (train_batch model criterion batch_size accum_steps epoch max_epochs i batch st)
       (train_loop model criterion batch_size accum_steps epoch max_epochs (Suc i) rest)"

text \<open>\<^verbatim>\<open>[1 if p >= 0.5 else 0 for p in preds_all]\<close>; a comparison with NaN is false.\<close>

fun binarise :: "num \<Rightarrow> int" where
  "binarise (Num p) = (if 0.5 \<le> p then 1 else 0)"
| "binarise NaN = 0"

text \<open>Division of a Python float by an integer: a zero divisor raises.\<close>

definition py_div :: "num \<Rightarrow> nat \<Rightarrow> error + num" where
  "py_div a n = (if n = 0 then Inl ZeroDivisionError else Inr (ndiv a (Num (real n))))"

text \<open>
  \<^verbatim>\<open>train_epoch\<close>. The two scores of scikit-learn are parameters. The result is the log of
  the optimizer and the dict of the epoch's figures.
\<close>

definition train_epoch ::
  "(int list \<Rightarrow> num list \<Rightarrow> error + num) \<Rightarrow> (int list \<Rightarrow> int list \<Rightarrow> error + num)
     \<Rightarrow> 'a model \<Rightarrow> 'a dataloader \<Rightarrow> criterion \<Rightarrow> int \<Rightarrow> int \<Rightarrow> int \<Rightarrow> int
     \<Rightarrow> error + (opt_event list \<times> (string \<rightharpoonup> num))" where
  "train_epoch roc_auc_score accuracy_score model dataloader criterion batch_size
       accum_steps epoch max_epochs =
     ebind (train_loop model criterion batch_size accum_steps epoch max_epochs 0
              (batches dataloader)
              \<lparr>running_loss = Num 0, running_cls_loss = Num 0, running_cons_loss = Num 0,
               preds_all = [], labels_all = [], opt_log = [ZeroGrad]\<rparr>) (\<lambda>st.
     if accum_steps = 0 then Inl ZeroDivisionError
     else
       let log3 = (if int (dataset_len dataloader) mod accum_steps \<noteq> 0
                   then opt_log st @ [Step, ZeroGrad] else opt_log st)
       in ebind (py_div (running_loss st) (dataset_len dataloader)) (\<lambda>epoch_loss.
          ebind (py_div (running_cls_loss st) (dataset_len dataloader)) (\<lambda>epoch_cls_loss.
          ebind (py_div (running_cons_loss st) (dataset_len dataloader)) (\<lambda>epoch_cons_loss.
          ebind (roc_auc_score (labels_all st) (preds_all st)) (\<lambda>epoch_auc.
          ebind (accuracy_score (labels_all st) (map binarise (preds_all st))) (\<lambda>epoch_acc.
          Inr (log3, [''loss'' \<mapsto> epoch_loss,
                      ''cls_loss'' \<mapsto> epoch_cls_loss,
                      ''incons_loss'' \<mapsto> epoch_cons_loss,
                      ''auc'' \<mapsto> epoch_auc,
                      ''acc'' \<mapsto> epoch_acc])))))))"

text \<open>
  The loop of \<^verbatim>\<open>evaluate\<close> in \<^verbatim>\<open>eval.py\<close> (lines 119 to 132) and the division that follows
  it. The scores computed from the collected predictions are those of scikit-learn; they
  are one parameter, \<open>report\<close>.
\<close>

fun nsigmoid :: "num \<Rightarrow> num" where
  "nsigmoid (Num a) = Num (1 / (1 + exp (- a)))"
| "nsigmoid NaN = NaN"

fun rows_of :: "tensor \<Rightarrow> num list list" where
  "rows_of (Vec v) = map (\<lambda>x. [x]) v"
| "rows_of (Mat n m rs) = rs"

record eval_state =
  test_loss :: num
  all_preds :: "num list list"
  all_labels :: "int list"
  test_orth_loss :: "num list"

definition evaluate_batch ::
  "'a model \<Rightarrow> criterion \<Rightarrow> int \<Rightarrow> 'a frame_batch \<times> int list \<Rightarrow> eval_state
     \<Rightarrow> error + eval_state" where
  "evaluate_batch model criterion args_batch_size batch st =
     (case batch of (frames, labels) \<Rightarrow>
      ebind (model [VFrames frames]
               [(''batch_size'', VInt args_batch_size), (''ablation'', VStr ''dynamic'')])
        (\<lambda>outputs.
      ebind (combined_loss outputs labels criterion 1 1) (\<lambda>(loss, losses).
      ebind (getitem outputs ''logits'') (\<lambda>logits.
      Inr \<lparr>test_loss = nadd (test_loss st) (nmul loss (Num (real (size0 frames)))),
           all_preds = all_preds st @ map (map nsigmoid) (rows_of logits),
           all_labels = all_labels st @ labels,
           test_orth_loss = test_orth_loss st @ [orth_loss losses]\<rparr>))))"

fun evaluate_loop ::
  "'a model \<Rightarrow> criterion \<Rightarrow> int \<Rightarrow> ('a frame_batch \<times> int list) list \<Rightarrow> eval_state
     \<Rightarrow> error + eval_state" where
  "evaluate_loop model criterion args_batch_size [] st = Inr st"
| "evaluate_loop model criterion args_batch_size (batch # rest) st =
     ebind (evaluate_batch model criterion args_batch_size batch st)
       (evaluate_loop model criterion args_batch_size rest)"

definition evaluate ::
  "(eval_state \<Rightarrow> error + 'r) \<Rightarrow> 'a model \<Rightarrow> 'a dataloader \<Rightarrow> criterion \<Rightarrow> int
     \<Rightarrow> error + 'r" where
  "evaluate report model dataloader criterion args_batch_size =
     ebind (evaluate_loop model criterion args_batch_size (batches dataloader)
              \<lparr>test_loss = Num 0, all_preds = [], all_labels = [], test_orth_loss = []\<rparr>)
       (\<lambda>st.
     ebind (py_div (test_loss st) (dataset_len dataloader)) (\<lambda>l.
     report (st\<lparr>test_loss := l\<rparr>)))"

section \<open>Loading a checkpoint\<close>





section \<open>Concrete inputs\<close>

text \<open>Small inputs on which the theorems below are instantiated.\<close>

definition ex_criterion :: criterion where
  "ex_criterion logits labels = Inr (Num 1)"

definition ex_detector :: "nat detector" where
  "ex_detector = \<lparr>dama_dim = 1,
     dama = (\<lambda>x batch_size. Inr (Mat 1 1 [[Num 0]])),
     tcm = (\<lambda>x feats. Inr [''consistency_score'' \<mapsto> Mat 1 2 [[Num 0, Num 0]],
                           ''tcm_features'' \<mapsto> Mat 1 1 [[Num 0]]]),
     gate_weight = [[0, 0], [0, 0]],
     gate_bias = [0, 0],
     classifier = (\<lambda>fused. Inr (Mat 1 2 [[Num 0, Num 0]]))\<rparr>"

definition ex_frames :: "nat frame_batch" where
  "ex_frames = FrameBatch 2 [[0, 1]]"

definition ex_full_outputs :: output_bundle where
  "ex_full_outputs = [''logits'' \<mapsto> Mat 2 2 [[Num 0, Num 0], [Num 0, Num 0]],
                      ''tcm_inconsistency'' \<mapsto> Mat 2 1 [[Num 0.2], [Num 0.2]],
                      ''dama_feats'' \<mapsto> Mat 2 1 [[Num 0], [Num 0]],
                      ''tcm_feats'' \<mapsto> Mat 2 1 [[Num 0], [Num 0]]]"

definition ex_frames5 :: "nat frame_batch" where
  "ex_frames5 = FrameBatch 5 [[0, 1, 2, 3, 4], [5, 6, 7, 8, 9]]"

definition ex_train_model :: "nat model" where
  "ex_train_model args kwargs =
     Inr [''logits'' \<mapsto> Mat 3 2 [[Num 0, Num 0], [Num 0, Num 0], [Num 0, Num 0]],
          ''tcm_inconsistency'' \<mapsto> Mat 3 1 [[Num 0], [Num 0], [Num 0]]]"

definition ex_batch :: "nat frame_batch \<times> int list" where
  "ex_batch = (FrameBatch 1 [[0], [0], [0]], [0, 1, 0])"

definition ex_score :: "int list \<Rightarrow> 'b list \<Rightarrow> error + num" where
  "ex_score labels preds = Inr (Num 0.5)"

definition ex_train_state :: train_state where
  "ex_train_state = \<lparr>running_loss = Num 0, running_cls_loss = Num 0,
     running_cons_loss = Num 0, preds_all = [], labels_all = [], opt_log = [ZeroGrad]\<rparr>"




section \<open>Basic facts\<close>

lemma ebind_Inr [simp]: "ebind (Inr v) f = f v"
  by (simp add: ebind_def)

lemma ebind_Inl [simp]: "ebind (Inl e) f = Inl e"
  by (simp add: ebind_def)

lemma getitem_Some: "d k = Some v \<Longrightarrow> getitem d k = Inr v"
  by (simp add: getitem_def)

lemma getitem_None: "d k = None \<Longrightarrow> getitem d k = Inl (KeyError k)"
  by (simp add: getitem_def)

lemma warm_up_with_key:
  assumes "0 < max_epochs"
    and "real_of_int epoch / real_of_int max_epochs < 0.1"
    and "outputs ''logits'' = Some logits"
    and "outputs ''tcm_inconsistency'' = Some scores"
    and "one_hot labels = Inr labels'"
    and "criterion logits labels' = Inr cls"
  shows "combined_loss outputs labels criterion epoch max_epochs
           = Inr (cls, \<lparr>cls_loss = cls, incons_loss = Num 0, orth_loss = Num 0\<rparr>)"
proof -
  from assms(1,2) have "real_of_int epoch < 0.1 * real_of_int max_epochs"
    by (simp add: pos_divide_less_eq mult.commute)
  with assms(3-6) show ?thesis
    by (simp add: combined_loss_def getitem_Some)
qed

lemma dynamic_weight_ratio:
  assumes "max_epochs \<noteq> 0"
  shows "dynamic_weight epoch max_epochs
           = Inr (0.3 * min 1 ((real_of_int epoch / real_of_int max_epochs - 0.2) / 0.8))"
proof -
  have "(real_of_int epoch - 0.2 * real_of_int max_epochs) / (0.8 * real_of_int max_epochs)
          = (real_of_int epoch / real_of_int max_epochs - 0.2) / 0.8"
    using assms by (simp add: field_simps)
  moreover have "0.8 * real_of_int max_epochs \<noteq> 0"
    using assms by simp
  ultimately show ?thesis
    unfolding dynamic_weight_def by (simp only: if_False)
qed

lemma ebind_eq_Inr: "ebind m f = Inr y \<longleftrightarrow> (\<exists>v. m = Inr v \<and> f v = Inr y)"
  by (cases m) simp_all

lemma fuse_and_classify_keys:
  assumes "fuse_and_classify self x dama_feats = Inr outputs"
  shows "\<exists>logits cons. outputs = [''logits'' \<mapsto> logits, ''dama_feats'' \<mapsto> dama_feats,
            ''tcm_consistency'' \<mapsto> cons]"
  using assms unfolding fuse_and_classify_def ebind_eq_Inr by blast

lemma forward_keys:
  assumes "forward self num_gpus x batch_size = Inr outputs"
  shows "\<exists>logits feats cons. outputs = [''logits'' \<mapsto> logits, ''dama_feats'' \<mapsto> feats,
            ''tcm_consistency'' \<mapsto> cons]"
proof (cases "num_gpus \<le> 1")
  case True
  with assms obtain d where "fuse_and_classify self x d = Inr outputs"
    by (auto simp: forward_def forward_single_gpu_def ebind_eq_Inr)
  then show ?thesis using fuse_and_classify_keys by blast
next
  case False
  with assms obtain d where "fuse_and_classify self x d = Inr outputs"
    by (auto simp: forward_def ebind_eq_Inr)
  then show ?thesis using fuse_and_classify_keys by blast
qed

lemma ex_shards: "shards 2 2 = [(0, 0, 1), (1, 1, 2)]"
  by code_simp

lemma ex_stack_mean:
  "stack_mean [Mat 1 1 [[Num 0]], Mat 1 1 [[Num 0]]] = Inr (Mat 1 1 [[Num 0]])"
  by (simp add: stack_mean_def nmean_def nsum_def)

lemma ex_fuse_and_classify:
  "fuse_and_classify ex_detector ex_frames (Mat 1 1 [[Num 0]])
     = Inr [''logits'' \<mapsto> Mat 1 2 [[Num 0, Num 0]], ''dama_feats'' \<mapsto> Mat 1 1 [[Num 0]],
            ''tcm_consistency'' \<mapsto> Mat 1 2 [[Num 0, Num 0]]]"
  by (simp add: ex_detector_def fuse_and_classify_def getitem_def cat_last_def
      fusion_gate_def fuse_def)

lemma ex_forward:
  "forward ex_detector 2 ex_frames 4
     = Inr [''logits'' \<mapsto> Mat 1 2 [[Num 0, Num 0]], ''dama_feats'' \<mapsto> Mat 1 1 [[Num 0]],
            ''tcm_consistency'' \<mapsto> Mat 1 2 [[Num 0, Num 0]]]"
proof -
  have "run_shards ex_detector ex_frames 4 (shards (frame_count ex_frames) 2)
          = Inr [Mat 1 1 [[Num 0]], Mat 1 1 [[Num 0]]]"
    by (simp add: ex_frames_def ex_shards) (simp add: ex_detector_def)
  then show ?thesis
    by (simp add: forward_def ex_stack_mean ex_fuse_and_classify del: One_nat_def)
qed

text \<open>
  Claim C1. The claim is that the bundle returned by \<open>forward\<close> holds every field that
  \<open>combined_loss\<close> reads. The code returns exactly the keys \<open>logits\<close>, \<open>dama_feats\<close> and
  \<open>tcm_consistency\<close>, while the loss reads \<open>tcm_inconsistency\<close> before it looks at the
  phase: on every output of a forward pass, and for valid labels, the loss raises
  \<open>KeyError\<close>.
\<close>

theorem forward_output_misses_loss_keys:
  assumes "forward self num_gpus x batch_size = Inr outputs"
  shows "dom outputs = {''logits'', ''dama_feats'', ''tcm_consistency''}
       \<and> combined_loss outputs labels criterion epoch max_epochs
           = (if list_all (\<lambda>l. 0 \<le> l \<and> l < 2) labels
              then Inl (KeyError ''tcm_inconsistency'') else Inl (RuntimeError ''one_hot''))"
proof -
  from forward_keys [OF assms] obtain logits feats cons where
    out: "outputs = [''logits'' \<mapsto> logits, ''dama_feats'' \<mapsto> feats, ''tcm_consistency'' \<mapsto> cons]"
    by blast
  have "dom outputs = {''logits'', ''dama_feats'', ''tcm_consistency''}"
    unfolding out by auto
  moreover have "combined_loss outputs labels criterion epoch max_epochs
           = (if list_all (\<lambda>l. 0 \<le> l \<and> l < 2) labels
              then Inl (KeyError ''tcm_inconsistency'') else Inl (RuntimeError ''one_hot''))"
    unfolding out by (simp add: combined_loss_def getitem_def one_hot_def)
  ultimately show ?thesis by simp
qed

theorem forward_output_misses_loss_keys_witness:
  "\<exists>outputs. forward ex_detector 2 ex_frames 4 = Inr outputs
     \<and> dom outputs = {''logits'', ''dama_feats'', ''tcm_consistency''}
     \<and> combined_loss outputs [0] ex_criterion 0 10 = Inl (KeyError ''tcm_inconsistency'')"
  using forward_output_misses_loss_keys [OF ex_forward, of "[0]" ex_criterion 0 10] ex_forward
  by simp

lemma call_detector_train:
  "call_detector self num_gpus [VFrames frames] [(''batch_size'', VInt b)]
     = forward self num_gpus frames b"
  by (simp add: call_detector_def bind_args_def)

lemma combined_loss_no_key:
  assumes "outputs ''logits'' = Some logits" and "outputs ''tcm_inconsistency'' = None"
    and "one_hot labels = Inr labels'"
  shows "combined_loss outputs labels criterion epoch max_epochs
           = Inl (KeyError ''tcm_inconsistency'')"
  using assms by (simp add: combined_loss_def getitem_def)

text \<open>
  Claim C4. The claim is that in the warm-up phase, \<open>epoch / max_epochs < 0.1\<close>,
  \<open>combined_loss\<close> returns the classification loss alone for every bundle. The code reads
  \<open>outputs['tcm_inconsistency']\<close> before it tests the phase, and no output of \<open>forward\<close>
  holds that key: on every output of a forward pass, in the warm-up phase and for valid
  labels, \<open>combined_loss\<close> raises \<open>KeyError\<close>, and so does the body of the train loop on
  the detector. Once the key is present, the warm-up branch returns the classification
  loss with both diagnostics zero, without reading \<open>dama_feats\<close> or \<open>tcm_feats\<close>. The
  defect is the one of claim C1.
\<close>

theorem warm_up_raises_on_forward_output:
  assumes "forward self num_gpus frames batch_size = Inr outputs"
    and "0 < max_epochs"
    and "real_of_int epoch / real_of_int max_epochs < 0.1"
    and "one_hot labels = Inr labels'"
  shows "combined_loss outputs labels criterion epoch max_epochs
           = Inl (KeyError ''tcm_inconsistency'')
       \<and> train_batch (call_detector self num_gpus) criterion batch_size accum_steps
             epoch max_epochs i (frames, labels) st
           = Inl (KeyError ''tcm_inconsistency'')
       \<and> (\<forall>scores logits cls.
             outputs ''logits'' = Some logits \<and> criterion logits labels' = Inr cls
             \<longrightarrow> combined_loss (outputs(''tcm_inconsistency'' \<mapsto> scores)) labels criterion
                   epoch max_epochs
                 = Inr (cls, \<lparr>cls_loss = cls, incons_loss = Num 0, orth_loss = Num 0\<rparr>))"
proof -
  from forward_keys [OF assms(1)] obtain logits feats cons where
    out: "outputs = [''logits'' \<mapsto> logits, ''dama_feats'' \<mapsto> feats, ''tcm_consistency'' \<mapsto> cons]"
    by blast
  have a: "combined_loss outputs labels criterion epoch max_epochs
           = Inl (KeyError ''tcm_inconsistency'')"
    using combined_loss_no_key [of outputs logits labels labels' criterion epoch max_epochs]
      assms(4)
    by (simp add: out)
  have b: "train_batch (call_detector self num_gpus) criterion batch_size accum_steps
             epoch max_epochs i (frames, labels) st
           = Inl (KeyError ''tcm_inconsistency'')"
    by (simp add: train_batch_def call_detector_train assms(1) a)
  have c: "combined_loss (outputs(''tcm_inconsistency'' \<mapsto> scores)) labels criterion
                   epoch max_epochs
                 = Inr (cls, \<lparr>cls_loss = cls, incons_loss = Num 0, orth_loss = Num 0\<rparr>)"
    if "outputs ''logits'' = Some l" and "criterion l labels' = Inr cls" for scores l cls
    using warm_up_with_key [of max_epochs epoch "outputs(''tcm_inconsistency'' \<mapsto> scores)" l
        scores labels labels' criterion cls] assms(2,3,4) that
    by simp
  from a b c show ?thesis by blast
qed

theorem warm_up_raises_on_forward_output_witness:
  "forward ex_detector 2 ex_frames 4
     = Inr [''logits'' \<mapsto> Mat 1 2 [[Num 0, Num 0]], ''dama_feats'' \<mapsto> Mat 1 1 [[Num 0]],
            ''tcm_consistency'' \<mapsto> Mat 1 2 [[Num 0, Num 0]]]
   \<and> combined_loss [''logits'' \<mapsto> Mat 1 2 [[Num 0, Num 0]], ''dama_feats'' \<mapsto> Mat 1 1 [[Num 0]],
            ''tcm_consistency'' \<mapsto> Mat 1 2 [[Num 0, Num 0]]] [0] ex_criterion 0 10
     = Inl (KeyError ''tcm_inconsistency'')
   \<and> train_batch (call_detector ex_detector 2) ex_criterion 4 2 0 10 0 (ex_frames, [0])
         ex_train_state
     = Inl (KeyError ''tcm_inconsistency'')"
proof -
  have "one_hot [0] = Inr [[Num 1, Num 0]]"
    by (simp add: one_hot_def)
  from warm_up_raises_on_forward_output [OF ex_forward _ _ this, of 10 0 ex_criterion 2 0
      ex_train_state] ex_forward
  show ?thesis by simp
qed

lemma nadd_NaN [simp]: "nadd x NaN = NaN" "nadd NaN x = NaN"
  by (cases x; simp)+

lemma nsub_NaN [simp]: "nsub x NaN = NaN" "nsub NaN x = NaN"
  by (cases x; simp)+

lemma nmul_NaN [simp]: "nmul x NaN = NaN" "nmul NaN x = NaN"
  by (cases x; simp)+

lemma nmean_Nil [simp]: "nmean [] = NaN"
  by (simp add: nmean_def)

lemma nrelu_NaN_iff [simp]: "nrelu x = NaN \<longleftrightarrow> x = NaN"
  by (cases x) simp_all

lemma index_mask_all:
  assumes "length v = length xs" and "list_all P xs"
  shows "index_mask v (map P xs) = Inr v"
    and "index_mask v (map (Not \<circ> P) xs) = Inr []"
proof -
  have a: "map fst (filter snd (zip v (map P xs))) = v"
    using assms by (induction v xs rule: list_induct2) simp_all
  have b: "filter snd (zip v (map (Not \<circ> P) xs)) = []"
    using assms by (induction v xs rule: list_induct2) simp_all
  show "index_mask v (map P xs) = Inr v"
    using assms(1) a by (simp add: index_mask_def)
  show "index_mask v (map (Not \<circ> P) xs) = Inr []"
    using assms(1) b by (simp add: index_mask_def)
qed

lemma index_mask_none:
  assumes "length v = length xs" and "list_all (\<lambda>x. \<not> P x) xs"
  shows "index_mask v (map P xs) = Inr []"
    and "index_mask v (map (Not \<circ> P) xs) = Inr v"
proof -
  have a: "filter snd (zip v (map P xs)) = []"
    using assms by (induction v xs rule: list_induct2) simp_all
  have b: "map fst (filter snd (zip v (map (Not \<circ> P) xs))) = v"
    using assms by (induction v xs rule: list_induct2) simp_all
  show "index_mask v (map P xs) = Inr []"
    using assms(1) a by (simp add: index_mask_def)
  show "index_mask v (map (Not \<circ> P) xs) = Inr v"
    using assms(1) b by (simp add: index_mask_def)
qed

lemma one_hot_all_real:
  assumes "list_all (\<lambda>l. l = 0) labels" and "one_hot labels = Inr labels'"
  shows "length labels' = length labels \<and> list_all (\<lambda>row. row ! 0 = Num 1) labels'"
proof -
  have v: "list_all (\<lambda>l. 0 \<le> l \<and> l < 2) labels"
    using assms(1) by (induction labels) simp_all
  have "list_all (\<lambda>row. row ! 0 = Num 1)
          (map (\<lambda>l. [Num (if l = 0 then 1 else 0), Num (if l = 1 then 1 else 0)]) labels)"
    using assms(1) by (induction labels) simp_all
  with v assms(2) show ?thesis by (auto simp: one_hot_def)
qed

lemma one_hot_all_fake:
  assumes "list_all (\<lambda>l. l = 1) labels" and "one_hot labels = Inr labels'"
  shows "length labels' = length labels \<and> list_all (\<lambda>row. \<not> row ! 0 = Num 1) labels'"
proof -
  have v: "list_all (\<lambda>l. 0 \<le> l \<and> l < 2) labels"
    using assms(1) by (induction labels) simp_all
  have "list_all (\<lambda>row. \<not> row ! 0 = Num 1)
          (map (\<lambda>l. [Num (if l = 0 then 1 else 0), Num (if l = 1 then 1 else 0)]) labels)"
    using assms(1) by (induction labels) simp_all
  with v assms(2) show ?thesis by (auto simp: one_hot_def)
qed

lemma consistency_loss_empty_side:
  assumes "list_all (\<lambda>l. l = 0) labels \<or> list_all (\<lambda>l. l = 1) labels"
    and "one_hot labels = Inr labels'"
    and "length rs = length labels"
  shows "consistency_loss (Mat n m rs) labels' = Inr NaN"
proof -
  from assms(1) show ?thesis
  proof
    assume "list_all (\<lambda>l. l = 0) labels"
    from one_hot_all_real [OF this assms(2)] assms(3)
    have l: "length (map nmean rs) = length labels'"
      and a: "list_all (\<lambda>row. row ! 0 = Num 1) labels'" by simp_all
    show ?thesis
      by (simp add: consistency_loss_def mean_dim1_def index_mask_all [OF l a])
  next
    assume "list_all (\<lambda>l. l = 1) labels"
    from one_hot_all_fake [OF this assms(2)] assms(3)
    have l: "length (map nmean rs) = length labels'"
      and a: "list_all (\<lambda>row. \<not> row ! 0 = Num 1) labels'" by simp_all
    show ?thesis
      by (simp add: consistency_loss_def mean_dim1_def index_mask_none [OF l a])
  qed
qed

text \<open>
  Claim C2, as amended. The claim is that an empty real or fake subset contributes zero
  to the consistency loss. In the code the mean over the empty selection is \<open>NaN\<close>, which
  the hinge and the sum propagate. Let the labels be all real or all fake, the phase the
  last one (\<open>0.2 \<le> epoch / max_epochs\<close>, \<open>0 < max_epochs\<close>), and the bundle hold \<open>logits\<close> and
  a two-dimensional \<open>tcm_inconsistency\<close> with one row for each label; let the criterion
  return on the logits, and the orthogonality term return on the bundle (so the bundle
  holds \<open>dama_feats\<close> and \<open>tcm_feats\<close>). Then \<open>combined_loss\<close> returns, with \<open>NaN\<close> both as
  \<open>incons_loss\<close> and as total loss. Nothing is stated for a bundle without these keys.
\<close>

theorem empty_side_gives_nan:
  assumes "0 < max_epochs"
    and "0.2 \<le> real_of_int epoch / real_of_int max_epochs"
    and "list_all (\<lambda>l. l = 0) labels \<or> list_all (\<lambda>l. l = 1) labels"
    and "outputs ''logits'' = Some logits"
    and "outputs ''tcm_inconsistency'' = Some (Mat n m rs)"
    and "length rs = length labels"
    and "one_hot labels = Inr labels'"
    and "criterion logits labels' = Inr cls"
    and "orth_term outputs = Inr orth"
  shows "combined_loss outputs labels criterion epoch max_epochs
           = Inr (NaN, \<lparr>cls_loss = cls, incons_loss = NaN, orth_loss = orth\<rparr>)"
proof -
  from assms(1,2) have p: "0.2 * real_of_int max_epochs \<le> real_of_int epoch"
    by (simp add: pos_le_divide_eq mult.commute)
  with assms(1) have q: "\<not> real_of_int epoch < 0.1 * real_of_int max_epochs"
    by simp
  have r: "\<not> real_of_int epoch < 0.2 * real_of_int max_epochs"
    using p by simp
  obtain w where w: "dynamic_weight epoch max_epochs = Inr w"
    using assms(1) dynamic_weight_ratio [of max_epochs epoch] by blast
  have c: "consistency_loss (Mat n m rs) labels' = Inr NaN"
    using consistency_loss_empty_side [OF assms(3) assms(7) assms(6)] .
  show ?thesis
    unfolding combined_loss_def
    using q r w c assms(4,5,7,8,9) by (simp add: getitem_Some)
qed

lemma ex_full_orth: "orth_term ex_full_outputs = Inr (Num 0)"
  by (simp add: orth_term_def ex_full_outputs_def getitem_def transpose_t_def mm_def
      norm_t_def nsum_def)

theorem empty_side_gives_nan_witness:
  "combined_loss ex_full_outputs [0, 0] ex_criterion 5 10
     = Inr (NaN, \<lparr>cls_loss = Num 1, incons_loss = NaN, orth_loss = Num 0\<rparr>)"
  using empty_side_gives_nan [of 10 5 "[0, 0]" ex_full_outputs
      "Mat 2 2 [[Num 0, Num 0], [Num 0, Num 0]]" 2 1 "[[Num 0.2], [Num 0.2]]"
      "[[Num 1, Num 0], [Num 1, Num 0]]" ex_criterion "Num 1" "Num 0"]
    ex_full_orth
  by (simp add: ex_full_outputs_def ex_criterion_def one_hot_def)

lemma ex_full_loss:
  "combined_loss ex_full_outputs [0, 0] ex_criterion 5 10
     = Inr (NaN, \<lparr>cls_loss = Num 1, incons_loss = NaN, orth_loss = Num 0\<rparr>)"
proof -
  have c: "consistency_loss (Mat 2 1 [[Num 0.2], [Num 0.2]]) [[Num 1, Num 0], [Num 1, Num 0]]
             = Inr NaN"
    by (simp add: consistency_loss_def mean_dim1_def index_mask_def)
  have w: "dynamic_weight 5 10 = Inr (9 / 80)"
    by (simp add: dynamic_weight_def)
  show ?thesis
    unfolding combined_loss_def
    using c w ex_full_orth [unfolded ex_full_outputs_def]
    by (simp add: getitem_def ex_full_outputs_def one_hot_def ex_criterion_def)
qed

text \<open>
  The counterexample to claim C2 as stated, at epoch 5 of 10. On the output of a forward
  pass for one real video, \<open>combined_loss\<close> raises \<open>KeyError\<close>. On a bundle that holds the
  keys the loss reads, with two real videos of inconsistency \<open>0.2\<close> and no fake video, the
  real side alone gives the hinge \<open>0.1\<close>; with a zero contribution of the empty side the
  consistency loss would be \<open>0.1\<close>, and the code returns \<open>NaN\<close>.
\<close>

theorem empty_side_counterexample:
  "forward ex_detector 2 ex_frames 4
     = Inr [''logits'' \<mapsto> Mat 1 2 [[Num 0, Num 0]], ''dama_feats'' \<mapsto> Mat 1 1 [[Num 0]],
            ''tcm_consistency'' \<mapsto> Mat 1 2 [[Num 0, Num 0]]]
   \<and> combined_loss [''logits'' \<mapsto> Mat 1 2 [[Num 0, Num 0]], ''dama_feats'' \<mapsto> Mat 1 1 [[Num 0]],
            ''tcm_consistency'' \<mapsto> Mat 1 2 [[Num 0, Num 0]]] [0] ex_criterion 5 10
     = Inl (KeyError ''tcm_inconsistency'')
   \<and> combined_loss ex_full_outputs [0, 0] ex_criterion 5 10
     = Inr (NaN, \<lparr>cls_loss = Num 1, incons_loss = NaN, orth_loss = Num 0\<rparr>)
   \<and> nadd (nrelu (nsub (nmean [Num 0.2, Num 0.2]) (Num 0.1))) (Num 0) = Num 0.1
   \<and> NaN \<noteq> Num 0.1"
proof -
  have "combined_loss [''logits'' \<mapsto> Mat 1 2 [[Num 0, Num 0]], ''dama_feats'' \<mapsto> Mat 1 1 [[Num 0]],
            ''tcm_consistency'' \<mapsto> Mat 1 2 [[Num 0, Num 0]]] [0] ex_criterion 5 10
     = Inl (KeyError ''tcm_inconsistency'')"
    by (simp add: combined_loss_def getitem_def one_hot_def)
  with ex_forward ex_full_loss show ?thesis
    by (simp add: nmean_def nsum_def)
qed

lemma full_phase_loss:
  assumes "0 < max_epochs"
    and "0.2 \<le> real_of_int epoch / real_of_int max_epochs"
    and "outputs ''logits'' = Some logits"
    and "outputs ''tcm_inconsistency'' = Some scores"
    and "one_hot labels = Inr labels'"
    and "criterion logits labels' = Inr cls"
    and "consistency_loss scores labels' = Inr incons"
    and "orth_term outputs = Inr orth"
  shows "combined_loss outputs labels criterion epoch max_epochs
           = Inr (nadd (nadd cls
                    (nmul (Num (0.3 * min 1
                       ((real_of_int epoch / real_of_int max_epochs - 0.2) / 0.8))) incons))
                    (nmul (Num 0.01) orth),
                  \<lparr>cls_loss = cls, incons_loss = incons, orth_loss = orth\<rparr>)"
proof -
  from assms(1,2) have p: "0.2 * real_of_int max_epochs \<le> real_of_int epoch"
    by (simp add: pos_le_divide_eq mult.commute)
  with assms(1) have q: "\<not> real_of_int epoch < 0.1 * real_of_int max_epochs"
    by simp
  have r: "\<not> real_of_int epoch < 0.2 * real_of_int max_epochs"
    using p by simp
  have w: "dynamic_weight epoch max_epochs
      = Inr (0.3 * min 1 ((real_of_int epoch / real_of_int max_epochs - 0.2) / 0.8))"
    using assms(1) by (simp add: dynamic_weight_ratio)
  have g1: "getitem outputs ''logits'' = Inr logits"
    using assms(3) by (simp add: getitem_def)
  have g2: "getitem outputs ''tcm_inconsistency'' = Inr scores"
    using assms(4) by (simp add: getitem_def)
  show ?thesis
    unfolding combined_loss_def
    by (simp only: g1 g2 assms(5-8) w ebind_Inr q r if_False simp_thms prod.case)
qed

lemma ex_mixed_consistency:
  "consistency_loss (Mat 2 1 [[Num 0.2], [Num 0.2]]) [[Num 1, Num 0], [Num 0, Num 1]]
     = Inr (Num 0.2)"
  by (simp add: consistency_loss_def mean_dim1_def index_mask_def nmean_def nsum_def)

text \<open>
  Claim C5. In the last phase, on a bundle and labels for which the criterion, the
  consistency term and the orthogonality term return, \<open>combined_loss\<close> returns
  \<open>cls + w * incons + 0.01 * orth\<close> with the weight
  \<open>w = 0.3 * min 1 ((p - 0.2) / 0.8)\<close> for \<open>p = epoch / max_epochs\<close>, which is the value of
  \<open>dynamic_weight\<close>. The weight does not decrease when \<open>p\<close> grows, it is zero at
  \<open>p = 0.2\<close> and it is \<open>0.3\<close> from \<open>p = 1\<close> on.
\<close>

theorem ramp_weight_in_full_phase:
  assumes "0 < max_epochs" and "0 < max_epochs'"
  shows "(0.2 \<le> real_of_int epoch / real_of_int max_epochs
            \<and> outputs ''logits'' = Some logits
            \<and> outputs ''tcm_inconsistency'' = Some scores
            \<and> one_hot labels = Inr labels'
            \<and> criterion logits labels' = Inr cls
            \<and> consistency_loss scores labels' = Inr incons
            \<and> orth_term outputs = Inr orth
          \<longrightarrow> combined_loss outputs labels criterion epoch max_epochs
                = Inr (nadd (nadd cls
                         (nmul (Num (0.3 * min 1
                            ((real_of_int epoch / real_of_int max_epochs - 0.2) / 0.8))) incons))
                         (nmul (Num 0.01) orth),
                       \<lparr>cls_loss = cls, incons_loss = incons, orth_loss = orth\<rparr>))
       \<and> dynamic_weight epoch max_epochs
           = Inr (0.3 * min 1 ((real_of_int epoch / real_of_int max_epochs - 0.2) / 0.8))
       \<and> (real_of_int epoch / real_of_int max_epochs
             \<le> real_of_int epoch' / real_of_int max_epochs'
           \<longrightarrow> 0.3 * min 1 ((real_of_int epoch / real_of_int max_epochs - 0.2) / 0.8)
               \<le> 0.3 * min 1 ((real_of_int epoch' / real_of_int max_epochs' - 0.2) / 0.8)
             \<and> (\<exists>w w'. dynamic_weight epoch max_epochs = Inr w
                  \<and> dynamic_weight epoch' max_epochs' = Inr w' \<and> w \<le> w'))
       \<and> (real_of_int epoch / real_of_int max_epochs = 0.2
           \<longrightarrow> dynamic_weight epoch max_epochs = Inr 0)
       \<and> (1 \<le> real_of_int epoch / real_of_int max_epochs
           \<longrightarrow> dynamic_weight epoch max_epochs = Inr 0.3)"
proof -
  have a: "dynamic_weight epoch max_epochs
      = Inr (0.3 * min 1 ((real_of_int epoch / real_of_int max_epochs - 0.2) / 0.8))"
    using assms(1) by (simp add: dynamic_weight_ratio)
  have b: "dynamic_weight epoch' max_epochs'
      = Inr (0.3 * min 1 ((real_of_int epoch' / real_of_int max_epochs' - 0.2) / 0.8))"
    using assms(2) by (simp add: dynamic_weight_ratio)
  have link: "0.2 \<le> real_of_int epoch / real_of_int max_epochs
            \<and> outputs ''logits'' = Some logits
            \<and> outputs ''tcm_inconsistency'' = Some scores
            \<and> one_hot labels = Inr labels'
            \<and> criterion logits labels' = Inr cls
            \<and> consistency_loss scores labels' = Inr incons
            \<and> orth_term outputs = Inr orth
          \<longrightarrow> combined_loss outputs labels criterion epoch max_epochs
                = Inr (nadd (nadd cls
                         (nmul (Num (0.3 * min 1
                            ((real_of_int epoch / real_of_int max_epochs - 0.2) / 0.8))) incons))
                         (nmul (Num 0.01) orth),
                       \<lparr>cls_loss = cls, incons_loss = incons, orth_loss = orth\<rparr>)"
    using full_phase_loss [OF assms(1)] by blast
  define p where "p = real_of_int epoch / real_of_int max_epochs"
  define q where "q = real_of_int epoch' / real_of_int max_epochs'"
  have mono: "p \<le> q \<longrightarrow> 0.3 * min 1 ((p - 0.2) / 0.8) \<le> 0.3 * min 1 ((q - 0.2) / 0.8)"
    by (simp add: min_def)
  have zero: "p = 0.2 \<longrightarrow> 0.3 * min 1 ((p - 0.2) / 0.8) = 0"
    by simp
  have cap: "1 \<le> p \<longrightarrow> 0.3 * min 1 ((p - 0.2) / 0.8) = 0.3"
    by (simp add: min_def)
  have rest: "dynamic_weight epoch max_epochs
           = Inr (0.3 * min 1 ((real_of_int epoch / real_of_int max_epochs - 0.2) / 0.8))
       \<and> (real_of_int epoch / real_of_int max_epochs
             \<le> real_of_int epoch' / real_of_int max_epochs'
           \<longrightarrow> 0.3 * min 1 ((real_of_int epoch / real_of_int max_epochs - 0.2) / 0.8)
               \<le> 0.3 * min 1 ((real_of_int epoch' / real_of_int max_epochs' - 0.2) / 0.8)
             \<and> (\<exists>w w'. dynamic_weight epoch max_epochs = Inr w
                  \<and> dynamic_weight epoch' max_epochs' = Inr w' \<and> w \<le> w'))
       \<and> (real_of_int epoch / real_of_int max_epochs = 0.2
           \<longrightarrow> dynamic_weight epoch max_epochs = Inr 0)
       \<and> (1 \<le> real_of_int epoch / real_of_int max_epochs
           \<longrightarrow> dynamic_weight epoch max_epochs = Inr 0.3)"
    unfolding a b p_def [symmetric] q_def [symmetric]
    using mono zero cap by blast
  from link rest show ?thesis by blast
qed

theorem ramp_weight_in_full_phase_witness:
  "combined_loss ex_full_outputs [0, 1] ex_criterion 5 10
     = Inr (Num 1.0225, \<lparr>cls_loss = Num 1, incons_loss = Num 0.2, orth_loss = Num 0\<rparr>)
   \<and> dynamic_weight 5 10 = Inr 0.1125
   \<and> dynamic_weight 2 10 = Inr 0
   \<and> dynamic_weight 10 10 = Inr 0.3"
proof -
  have h: "(0::int) < 10" by simp
  have l: "ex_full_outputs ''logits'' = Some (Mat 2 2 [[Num 0, Num 0], [Num 0, Num 0]])"
    and s: "ex_full_outputs ''tcm_inconsistency'' = Some (Mat 2 1 [[Num 0.2], [Num 0.2]])"
    by (simp_all add: ex_full_outputs_def)
  have o: "one_hot [0, 1] = Inr [[Num 1, Num 0], [Num 0, Num 1]]"
    by (simp add: one_hot_def)
  have c: "ex_criterion (Mat 2 2 [[Num 0, Num 0], [Num 0, Num 0]])
             [[Num 1, Num 0], [Num 0, Num 1]] = Inr (Num 1)"
    by (simp add: ex_criterion_def)
  have p: "(0.2::real) \<le> real_of_int 5 / real_of_int 10" by simp
  from ramp_weight_in_full_phase [OF h h, of 5 ex_full_outputs
      "Mat 2 2 [[Num 0, Num 0], [Num 0, Num 0]]" "Mat 2 1 [[Num 0.2], [Num 0.2]]"
      "[0, 1]" "[[Num 1, Num 0], [Num 0, Num 1]]" ex_criterion "Num 1" "Num 0.2" "Num 0" 5]
    p l s o c ex_mixed_consistency ex_full_orth
  have a: "combined_loss ex_full_outputs [0, 1] ex_criterion 5 10
     = Inr (Num 1.0225, \<lparr>cls_loss = Num 1, incons_loss = Num 0.2, orth_loss = Num 0\<rparr>)
     \<and> dynamic_weight 5 10 = Inr 0.1125"
    by simp
  from ramp_weight_in_full_phase [OF h h, of 2 ex_full_outputs
      "Mat 2 2 [[Num 0, Num 0], [Num 0, Num 0]]" "Mat 2 1 [[Num 0.2], [Num 0.2]]"
      "[0, 1]" "[[Num 1, Num 0], [Num 0, Num 1]]" ex_criterion "Num 1" "Num 0.2" "Num 0" 2]
  have b: "dynamic_weight 2 10 = Inr 0" by simp
  from ramp_weight_in_full_phase [OF h h, of 10 ex_full_outputs
      "Mat 2 2 [[Num 0, Num 0], [Num 0, Num 0]]" "Mat 2 1 [[Num 0.2], [Num 0.2]]"
      "[0, 1]" "[[Num 1, Num 0], [Num 0, Num 1]]" ex_criterion "Num 1" "Num 0.2" "Num 0" 10]
  have c: "dynamic_weight 10 10 = Inr 0.3" by simp
  from a b c show ?thesis by blast
qed

lemma call_with_ablation:
  "call_detector self num_gpus [VFrames frames]
       [(''batch_size'', VInt b), (''ablation'', VStr ''dynamic'')]
     = Inl (TypeError ''unexpected keyword argument ablation'')"
  by (simp add: call_detector_def bind_args_def)

text \<open>
  Claim C9. The evaluation driver calls the model with the keyword \<open>ablation\<close>, which
  \<open>forward\<close> does not accept: the call raises \<open>TypeError\<close> for every batch, so
  \<open>evaluate\<close> fails on its first batch. The call of the train driver, with \<open>batch_size\<close>
  alone, reaches \<open>forward\<close>.
\<close>

theorem eval_call_fails:
  "call_detector self num_gpus [VFrames frames]
       [(''batch_size'', VInt b), (''ablation'', VStr ''dynamic'')]
     = Inl (TypeError ''unexpected keyword argument ablation'')
   \<and> call_detector self num_gpus [VFrames frames] [(''batch_size'', VInt b)]
     = forward self num_gpus frames b
   \<and> (batches dataloader \<noteq> []
        \<longrightarrow> evaluate report (call_detector self num_gpus) dataloader criterion b
              = Inl (TypeError ''unexpected keyword argument ablation''))"
proof -
  have "call_detector self num_gpus [VFrames frames] [(''batch_size'', VInt b)]
     = forward self num_gpus frames b"
    by (simp add: call_detector_def bind_args_def)
  moreover have "evaluate report (call_detector self num_gpus) dataloader criterion b
              = Inl (TypeError ''unexpected keyword argument ablation'')"
    if "batches dataloader \<noteq> []"
  proof -
    from that obtain batch rest where "batches dataloader = batch # rest"
      by (cases "batches dataloader") auto
    then show ?thesis
      by (cases batch) (simp add: evaluate_def evaluate_batch_def call_with_ablation)
  qed
  ultimately show ?thesis using call_with_ablation by blast
qed

theorem eval_call_fails_witness:
  "evaluate Inr (call_detector ex_detector 1)
       \<lparr>dataset_len = 1, batches = [(ex_frames, [0])]\<rparr> ex_criterion 8
     = Inl (TypeError ''unexpected keyword argument ablation'')"
  using eval_call_fails [of ex_detector 1 ex_frames 8
      "\<lparr>dataset_len = 1, batches = [(ex_frames, [0])]\<rparr>" Inr ex_criterion]
  by simp

lemma shard_loop_skip:
  "shard_size f r g = 0 \<Longrightarrow> shard_loop f r (g # ids) s = shard_loop f r ids s"
  by (simp add: shard_size_def split: if_splits)

lemma shard_loop_take:
  "shard_size f r g \<noteq> 0 \<Longrightarrow>
     shard_loop f r (g # ids) s
       = (g, s, s + shard_size f r g) # shard_loop f r ids (s + shard_size f r g)"
  by (simp add: shard_size_def Let_def split: if_splits)

lemma shard_loop_devices:
  "map fst (shard_loop f r ids s) = filter (\<lambda>g. 0 < shard_size f r g) ids"
proof (induction ids arbitrary: s)
  case Nil
  show ?case by simp
next
  case (Cons g ids)
  show ?case
    by (cases "shard_size f r g = 0") (simp_all add: shard_loop_skip shard_loop_take Cons del: shard_loop.simps)
qed

lemma shard_loop_ranges:
  "concat (map (\<lambda>(g, a, b). [a..<b]) (shard_loop f r ids s))
     = [s..<s + sum_list (map (shard_size f r) ids)]"
proof (induction ids arbitrary: s)
  case Nil
  show ?case by simp
next
  case (Cons g ids)
  show ?case
  proof (cases "shard_size f r g = 0")
    case True
    then show ?thesis by (simp add: shard_loop_skip Cons del: shard_loop.simps)
  next
    case False
    have "[s..<s + shard_size f r g]
            @ [s + shard_size f r g..<s + shard_size f r g + sum_list (map (shard_size f r) ids)]
        = [s..<s + shard_size f r g + sum_list (map (shard_size f r) ids)]"
      by (metis le_add1 upt_add_eq_append)
    with False show ?thesis
      by (simp add: shard_loop_take Cons add.assoc del: shard_loop.simps)
  qed
qed

lemma shard_loop_sizes:
  "list_all (\<lambda>(g, a, b). a < b \<and> b - a = shard_size f r g) (shard_loop f r ids s)"
proof (induction ids arbitrary: s)
  case Nil
  show ?case by simp
next
  case (Cons g ids)
  show ?case
    by (cases "shard_size f r g = 0") (simp_all add: shard_loop_skip shard_loop_take Cons del: shard_loop.simps)
qed

lemma shard_size_extra: "shard_size f r g = f + 1 \<longleftrightarrow> g < r"
  by (simp add: shard_size_def)

lemma shard_loop_extra:
  "length (filter (\<lambda>(g, a, b). b - a = f + 1) (shard_loop f r ids s))
     = length (filter (\<lambda>g. g < r) ids)"
proof (induction ids arbitrary: s)
  case Nil
  show ?case by simp
next
  case (Cons g ids)
  show ?case
  proof (cases "shard_size f r g = 0")
    case True
    then have "\<not> g < r" by (simp add: shard_size_def split: if_splits)
    with True show ?thesis
      using Cons [of s] by (simp add: shard_loop_skip del: shard_loop.simps)
  next
    case False
    then show ?thesis
      using shard_size_extra [of f r g] Cons [of "s + shard_size f r g"]
      by (simp add: shard_loop_take del: shard_loop.simps)
  qed
qed

lemma shard_loop_total:
  "sum_list (map (\<lambda>(g, a, b). b - a) (shard_loop f r ids s))
     = sum_list (map (shard_size f r) ids)"
proof (induction ids arbitrary: s)
  case Nil
  show ?case by simp
next
  case (Cons g ids)
  show ?case
    by (cases "shard_size f r g = 0") (simp_all add: shard_loop_skip shard_loop_take Cons del: shard_loop.simps)
qed

lemma sum_shard_sizes: "sum_list (map (shard_size f r) [0..<n]) = n * f + min n r"
  by (induction n) (auto simp: shard_size_def min_def)

lemma count_extra: "length (filter (\<lambda>g. g < r) [0..<n]) = min n r"
  by (induction n) (auto simp: min_def)

lemma ceiling_extra:
  assumes "0 < G" and "0 < T mod G"
  shows "nat \<lceil>real T / real G\<rceil> = T div G + 1"
proof -
  have T: "real T = real G * real (T div G) + real (T mod G)"
    by (metis mult_div_mod_eq of_nat_add of_nat_mult)
  have lt: "real (T mod G) < real G"
    using assms(1) by simp
  have "\<lceil>real T / real G\<rceil> = int (T div G) + 1"
  proof (rule ceiling_unique)
    show "real_of_int (int (T div G) + 1) - 1 < real T / real G"
      using assms T by (simp add: field_simps)
    show "real T / real G \<le> real_of_int (int (T div G) + 1)"
      using assms(1) T lt by (simp add: field_simps)
  qed
  then show ?thesis by simp
qed

lemma shards_index_facts:
  assumes "1 < G"
  shows "sum_list (map (\<lambda>(g, a, b). b - a) (shards T G)) = T
       \<and> concat (map (\<lambda>(g, a, b). [a..<b]) (shards T G)) = [0..<T]
       \<and> list_all (\<lambda>(g, a, b). a < b
             \<and> b - a = (if g < T mod G then nat \<lceil>real T / real G\<rceil> else T div G))
           (shards T G)
       \<and> length (filter (\<lambda>(g, a, b). b - a = T div G + 1) (shards T G)) = T mod G
       \<and> map fst (shards T G) = filter (\<lambda>g. g < T mod G \<or> 0 < T div G) [0..<G]"
proof -
  have r: "T mod G < G" using assms by simp
  have total: "sum_list (map (shard_size (T div G) (T mod G)) [0..<G]) = T"
    using r by (simp add: sum_shard_sizes min_def)
  have c1: "sum_list (map (\<lambda>(g, a, b). b - a) (shards T G)) = T"
    by (simp add: shards_def shard_loop_total total)
  have c2: "concat (map (\<lambda>(g, a, b). [a..<b]) (shards T G)) = [0..<T]"
    by (simp add: shards_def shard_loop_ranges total)
  have sz: "shard_size (T div G) (T mod G) g
      = (if g < T mod G then nat \<lceil>real T / real G\<rceil> else T div G)" for g
    using assms ceiling_extra [of G T] by (auto simp: shard_size_def)
  have c3: "list_all (\<lambda>(g, a, b). a < b
             \<and> b - a = (if g < T mod G then nat \<lceil>real T / real G\<rceil> else T div G))
           (shards T G)"
    using shard_loop_sizes [of "T div G" "T mod G" "[0..<G]" 0]
    unfolding shards_def sz .
  have c4: "length (filter (\<lambda>(g, a, b). b - a = T div G + 1) (shards T G)) = T mod G"
    using r shard_loop_extra [of "T div G" "T mod G" "[0..<G]" 0]
    by (simp add: shards_def count_extra min_def)
  have "(0 < shard_size (T div G) (T mod G) g) = (g < T mod G \<or> 0 < T div G)" for g
    by (simp add: shard_size_def)
  then have c5: "map fst (shards T G) = filter (\<lambda>g. g < T mod G \<or> 0 < T div G) [0..<G]"
    by (simp add: shards_def shard_loop_devices)
  from c1 c2 c3 c4 c5 show ?thesis by blast
qed

lemma run_shards_collect:
  "run_shards self x bs ss
     = collect (map (\<lambda>(g, a, b). dama self (slice_frames x a b) bs) ss)"
  by (induction ss) auto

lemma shard_loop_bounds:
  "list_all (\<lambda>(g, a, b). s \<le> a \<and> b \<le> s + sum_list (map (shard_size f r) ids))
     (shard_loop f r ids s)"
proof (induction ids arbitrary: s)
  case Nil
  show ?case by simp
next
  case (Cons g ids)
  show ?case
  proof (cases "shard_size f r g = 0")
    case True
    then show ?thesis using Cons [of s] by (simp add: shard_loop_skip del: shard_loop.simps)
  next
    case False
    have "list_all (\<lambda>(g', a, b). s \<le> a \<and> b \<le> s + (shard_size f r g + sum_list (map (shard_size f r) ids)))
            (shard_loop f r ids (s + shard_size f r g))"
      using Cons [of "s + shard_size f r g"]
      by (auto simp: list_all_iff)
    with False show ?thesis
      by (simp add: shard_loop_take del: shard_loop.simps)
  qed
qed

lemma shard_loop_video:
  "concat (map (\<lambda>(g, a, b). take (b - a) (drop a v)) (shard_loop f r ids s))
     = take (sum_list (map (shard_size f r) ids)) (drop s v)"
proof (induction ids arbitrary: s)
  case Nil
  show ?case by simp
next
  case (Cons g ids)
  show ?case
  proof (cases "shard_size f r g = 0")
    case True
    then show ?thesis using Cons [of s] by (simp add: shard_loop_skip del: shard_loop.simps)
  next
    case False
    have "take (shard_size f r g + sum_list (map (shard_size f r) ids)) (drop s v)
        = take (shard_size f r g) (drop s v)
          @ take (sum_list (map (shard_size f r) ids)) (drop (s + shard_size f r g) v)"
      by (simp add: take_add add.commute)
    with False show ?thesis using Cons [of "s + shard_size f r g"]
      by (simp add: shard_loop_take del: shard_loop.simps)
  qed
qed

lemma shards_total:
  assumes "0 < G"
  shows "sum_list (map (shard_size (T div G) (T mod G)) [0..<G]) = T"
proof -
  have "T mod G < G" using assms by simp
  then show ?thesis by (simp add: sum_shard_sizes min_def)
qed

lemma shards_bounds:
  assumes "0 < G"
  shows "list_all (\<lambda>(g, a, b). b \<le> T) (shards T G)"
  using shard_loop_bounds [of 0 "T div G" "T mod G" "[0..<G]"] shards_total [OF assms, of T]
  by (simp add: shards_def list_all_iff split_def)

lemma slice_frame_count:
  assumes "b \<le> frame_count x" and "a \<le> b"
  shows "frame_count (slice_frames x a b) = b - a"
  using assms by (cases x) simp

lemma slice_wf:
  assumes "wf_frames x" and "b \<le> frame_count x" and "a \<le> b"
  shows "wf_frames (slice_frames x a b)"
  using assms by (cases x) (auto simp: list_all_iff)

lemma shards_videos:
  assumes "0 < G" and "wf_frames x" and "i < size0 x"
  shows "concat (map (\<lambda>(g, a, b). videos (slice_frames x a b) ! i) (shards (frame_count x) G))
           = videos x ! i"
proof (cases x)
  case (FrameBatch T vs)
  with assms(2,3) have len: "length (vs ! i) = T"
    by (simp add: list_all_length)
  have "videos (slice_frames x a b) ! i = take (b - a) (drop a (vs ! i))" for a b
    using assms(3) FrameBatch by simp
  then have "concat (map (\<lambda>(g, a, b). videos (slice_frames x a b) ! i) (shards T G))
      = concat (map (\<lambda>(g, a, b). take (b - a) (drop a (vs ! i))) (shards T G))"
    by simp
  also have "\<dots> = take T (drop 0 (vs ! i))"
    using shard_loop_video [of "vs ! i" "T div G" "T mod G" "[0..<G]" 0]
      shards_total [OF assms(1), of T]
    by (simp add: shards_def)
  finally show ?thesis using len FrameBatch by simp
qed

text \<open>
  Claim C6. For more than one device and a well-formed frame batch, \<open>forward\<close> runs the
  extractor on the slices \<open>x[:, a:b]\<close> of the shards, in the order of the devices, and
  combines the results. Each slice is well formed and holds \<open>b - a > 0\<close> frames, which is
  \<open>\<lceil>T / G\<rceil>\<close> for a device below \<open>T mod G\<close> and \<open>T div G\<close> for every other one; the frame
  counts of the slices add up to \<open>T\<close>; the slices of each video, put one after the
  other, are the video, the shards covering the frames \<open>0\<close> to \<open>T - 1\<close> in order;
  exactly \<open>T mod G\<close> slices have the extra frame; and the devices that are processed are
  those with at least one frame, the others being skipped.
\<close>

theorem dispatcher_partition:
  assumes "1 < G" and "wf_frames x"
  shows "forward self G x batch_size
           = ebind (collect (map (\<lambda>(g, a, b). dama self (slice_frames x a b) batch_size)
                      (shards (frame_count x) G)))
               (\<lambda>all_dama_feats. ebind (stack_mean all_dama_feats) (fuse_and_classify self x))
       \<and> list_all (\<lambda>(g, a, b). a < b \<and> b \<le> frame_count x
               \<and> wf_frames (slice_frames x a b)
               \<and> frame_count (slice_frames x a b) = b - a
               \<and> b - a = (if g < frame_count x mod G
                           then nat \<lceil>real (frame_count x) / real G\<rceil>
                           else frame_count x div G))
           (shards (frame_count x) G)
       \<and> sum_list (map (\<lambda>(g, a, b). frame_count (slice_frames x a b))
             (shards (frame_count x) G)) = frame_count x
       \<and> map (\<lambda>i. concat (map (\<lambda>(g, a, b). videos (slice_frames x a b) ! i)
                            (shards (frame_count x) G))) [0..<size0 x]
           = videos x
       \<and> concat (map (\<lambda>(g, a, b). [a..<b]) (shards (frame_count x) G)) = [0..<frame_count x]
       \<and> length (filter (\<lambda>(g, a, b). frame_count (slice_frames x a b) = frame_count x div G + 1)
             (shards (frame_count x) G)) = frame_count x mod G
       \<and> map fst (shards (frame_count x) G)
           = filter (\<lambda>g. g < frame_count x mod G \<or> 0 < frame_count x div G) [0..<G]"
proof -
  define T where "T = frame_count x"
  have G: "0 < G" using assms(1) by simp
  note idx = shards_index_facts [OF assms(1), of T]
  have bnd: "list_all (\<lambda>(g, a, b). b \<le> T) (shards T G)"
    by (rule shards_bounds [OF G])
  have props: "list_all (\<lambda>(g, a, b). a < b \<and> b \<le> T
               \<and> b - a = (if g < T mod G then nat \<lceil>real T / real G\<rceil> else T div G))
           (shards T G)"
    using idx bnd by (auto simp: list_all_iff)
  have fc: "frame_count (slice_frames x a b) = b - a \<and> wf_frames (slice_frames x a b)"
    if "(g, a, b) \<in> set (shards T G)" for g a b
  proof -
    from that props have "a < b" "b \<le> T" by (auto simp: list_all_iff)
    then show ?thesis
      using slice_frame_count [of b x a] slice_wf [OF assms(2), of b a] by (simp add: T_def)
  qed
  have c1: "forward self G x batch_size
           = ebind (collect (map (\<lambda>(g, a, b). dama self (slice_frames x a b) batch_size)
                      (shards T G)))
               (\<lambda>all_dama_feats. ebind (stack_mean all_dama_feats) (fuse_and_classify self x))"
    using assms(1) by (simp add: forward_def run_shards_collect T_def)
  have c2: "list_all (\<lambda>(g, a, b). a < b \<and> b \<le> T
               \<and> wf_frames (slice_frames x a b)
               \<and> frame_count (slice_frames x a b) = b - a
               \<and> b - a = (if g < T mod G then nat \<lceil>real T / real G\<rceil> else T div G))
           (shards T G)"
    using props fc by (auto simp: list_all_iff)
  have "map (\<lambda>(g, a, b). frame_count (slice_frames x a b)) (shards T G)
      = map (\<lambda>(g, a, b). b - a) (shards T G)"
    using fc by auto
  moreover have "sum_list (map (\<lambda>(g, a, b). b - a) (shards T G)) = T"
    using idx by blast
  ultimately have c3:
    "sum_list (map (\<lambda>(g, a, b). frame_count (slice_frames x a b)) (shards T G)) = T"
    by (simp only:)
  have c4: "map (\<lambda>i. concat (map (\<lambda>(g, a, b). videos (slice_frames x a b) ! i) (shards T G)))
              [0..<size0 x] = videos x"
  proof (rule nth_equalityI)
    show "length (map (\<lambda>i. concat (map (\<lambda>(g, a, b). videos (slice_frames x a b) ! i)
              (shards T G))) [0..<size0 x]) = length (videos x)"
      by (cases x) simp
  next
    fix i
    assume "i < length (map (\<lambda>i. concat (map (\<lambda>(g, a, b). videos (slice_frames x a b) ! i)
              (shards T G))) [0..<size0 x])"
    then have "i < size0 x" by simp
    then show "map (\<lambda>i. concat (map (\<lambda>(g, a, b). videos (slice_frames x a b) ! i)
              (shards T G))) [0..<size0 x] ! i = videos x ! i"
      using shards_videos [OF G assms(2), of i] by (simp add: T_def)
  qed
  have c5: "concat (map (\<lambda>(g, a, b). [a..<b]) (shards T G)) = [0..<T]"
    using idx by blast
  have "filter (\<lambda>(g, a, b). frame_count (slice_frames x a b) = T div G + 1) (shards T G)
      = filter (\<lambda>(g, a, b). b - a = T div G + 1) (shards T G)"
    using fc by (intro filter_cong) auto
  moreover have "length (filter (\<lambda>(g, a, b). b - a = T div G + 1) (shards T G)) = T mod G"
    using idx by blast
  ultimately have c6: "length (filter (\<lambda>(g, a, b). frame_count (slice_frames x a b) = T div G + 1)
             (shards T G)) = T mod G"
    by (simp only:)
  have c7: "map fst (shards T G) = filter (\<lambda>g. g < T mod G \<or> 0 < T div G) [0..<G]"
    using idx by blast
  from c1 c2 c3 c4 c5 c6 c7 show ?thesis
    unfolding T_def by blast
qed

lemma ex_shards5: "shards 5 3 = [(0, 0, 2), (1, 2, 4), (2, 4, 5)]"
  by code_simp

theorem dispatcher_partition_witness:
  "shards (frame_count ex_frames5) 3 = [(0, 0, 2), (1, 2, 4), (2, 4, 5)]
   \<and> map (\<lambda>(g, a, b). slice_frames ex_frames5 a b) (shards (frame_count ex_frames5) 3)
       = [FrameBatch 2 [[0, 1], [5, 6]], FrameBatch 2 [[2, 3], [7, 8]], FrameBatch 1 [[4], [9]]]
   \<and> forward ex_detector 3 ex_frames5 4
       = ebind (collect (map (\<lambda>(g, a, b). dama ex_detector (slice_frames ex_frames5 a b) 4)
                  (shards (frame_count ex_frames5) 3)))
           (\<lambda>all_dama_feats. ebind (stack_mean all_dama_feats)
              (fuse_and_classify ex_detector ex_frames5))
   \<and> sum_list (map (\<lambda>(g, a, b). frame_count (slice_frames ex_frames5 a b))
         (shards (frame_count ex_frames5) 3)) = 5
   \<and> length (filter (\<lambda>(g, a, b). frame_count (slice_frames ex_frames5 a b) = 5 div 3 + 1)
         (shards (frame_count ex_frames5) 3)) = 5 mod 3
   \<and> shards 2 4 = [(0, 0, 1), (1, 1, 2)]"
proof -
  have g: "(1::nat) < 3" by simp
  have w: "wf_frames ex_frames5" by (simp add: ex_frames5_def)
  have t: "frame_count ex_frames5 = 5" by (simp add: ex_frames5_def)
  have s: "map (\<lambda>(g, a, b). slice_frames ex_frames5 a b) (shards 5 3)
       = [FrameBatch 2 [[0, 1], [5, 6]], FrameBatch 2 [[2, 3], [7, 8]], FrameBatch 1 [[4], [9]]]"
    by (simp add: ex_shards5 ex_frames5_def)
  have z: "shards 2 4 = [(0, 0, 1), (1, 1, 2)]" by code_simp
  from dispatcher_partition [OF g w, of ex_detector 4] s z ex_shards5
  show ?thesis unfolding t by simp
qed

lemma train_batch_Inr:
  assumes "train_batch model criterion bs accum ep mx i batch st = Inr st'"
  shows "accum \<noteq> 0 \<and> (\<exists>loss ls. batch_loss model criterion bs ep mx batch = Inr (loss, ls)
      \<and> running_loss st' = nadd (running_loss st)
           (nmul (ndiv loss (Num (real_of_int accum))) (Num (real (size0 (fst batch)))))
      \<and> running_cls_loss st' = nadd (running_cls_loss st)
           (nmul (cls_loss ls) (Num (real (size0 (fst batch)))))
      \<and> running_cons_loss st' = nadd (running_cons_loss st)
           (nmul (incons_loss ls) (Num (real (size0 (fst batch)))))
      \<and> opt_log st' = opt_log st @ batch_events accum i)"
  using assms unfolding train_batch_def batch_loss_def batch_events_def
  by (cases batch) (auto simp: ebind_eq_Inr Let_def split: if_splits prod.splits)

lemma train_loop_log:
  assumes "train_loop model criterion bs accum ep mx i rest st = Inr st'"
  shows "opt_log st' = opt_log st @ concat (map (batch_events accum) [i..<i + length rest])"
  using assms
proof (induction rest arbitrary: i st)
  case Nil
  then show ?case by simp
next
  case (Cons b rest)
  from Cons.prems obtain st1 where
    b: "train_batch model criterion bs accum ep mx i b st = Inr st1"
    and r: "train_loop model criterion bs accum ep mx (Suc i) rest st1 = Inr st'"
    by (auto simp: ebind_eq_Inr)
  have "opt_log st1 = opt_log st @ batch_events accum i"
    using train_batch_Inr [OF b] by blast
  moreover have "[i..<i + length (b # rest)] = i # [Suc i..<Suc i + length rest]"
    by (simp add: upt_rec)
  ultimately show ?case using Cons.IH [OF r] by simp
qed

lemma steps_of_batches:
  assumes "0 < accum"
  shows "length (filter (\<lambda>e. e = Step) (concat (map (batch_events accum) [0..<n])))
           = n div nat accum"
proof (induction n)
  case 0
  show ?case by simp
next
  case (Suc n)
  have "int (Suc n mod nat accum) = (int n + 1) mod accum"
    using assms by (simp add: zmod_int add.commute)
  then have m: "((int n + 1) mod accum = 0) = (Suc n mod nat accum = 0)"
    by (metis of_nat_eq_0_iff)
  have "length (filter (\<lambda>e. e = Step) (batch_events accum n))
          = (if Suc n mod nat accum = 0 then 1 else 0)"
    by (simp add: batch_events_def m)
  then show ?case using Suc by (simp add: div_Suc)
qed

text \<open>
  Claim C3. The claim is that the optimizer steps after every \<open>accum_steps\<close>-th batch and
  once more when the last window of batches is partial, four steps for ten batches and
  \<open>accum_steps = 3\<close>. When \<open>train_epoch\<close> returns, the log of the optimizer is the initial
  \<open>zero_grad\<close>, then for each batch its backward pass, followed by a step after every
  \<open>accum_steps\<close>-th batch, and a last step exactly when the number of samples
  \<open>len(dataloader.dataset)\<close>, not the number of batches, is no multiple of \<open>accum_steps\<close>.
  For ten batches of three samples the log holds three steps and the gradient of the
  tenth batch is never applied. On the detector of the repository the epoch raises on
  its first batch (claim C1) and the optimizer does not step at all.
\<close>

theorem train_epoch_optimizer_steps:
  assumes "train_epoch roc acc model dataloader criterion bs accum ep mx = Inr (events, metrics)"
  shows "events = [ZeroGrad]
           @ concat (map (batch_events accum) [0..<length (batches dataloader)])
           @ (if int (dataset_len dataloader) mod accum \<noteq> 0 then [Step, ZeroGrad] else [])
       \<and> (0 < accum \<longrightarrow> length (filter (\<lambda>e. e = Step) events)
             = length (batches dataloader) div nat accum
               + (if int (dataset_len dataloader) mod accum \<noteq> 0 then 1 else 0))"
proof -
  from assms obtain st where
    l: "train_loop model criterion bs accum ep mx 0 (batches dataloader)
          \<lparr>running_loss = Num 0, running_cls_loss = Num 0, running_cons_loss = Num 0,
           preds_all = [], labels_all = [], opt_log = [ZeroGrad]\<rparr> = Inr st"
    and e: "events = (if int (dataset_len dataloader) mod accum \<noteq> 0
                   then opt_log st @ [Step, ZeroGrad] else opt_log st)"
    unfolding train_epoch_def
    by (auto simp: ebind_eq_Inr Let_def split: if_splits)
  from train_loop_log [OF l] e have a: "events = [ZeroGrad]
           @ concat (map (batch_events accum) [0..<length (batches dataloader)])
           @ (if int (dataset_len dataloader) mod accum \<noteq> 0 then [Step, ZeroGrad] else [])"
    by simp
  have "length (filter (\<lambda>e. e = Step) events)
             = length (batches dataloader) div nat accum
               + (if int (dataset_len dataloader) mod accum \<noteq> 0 then 1 else 0)"
    if "0 < accum"
    unfolding a using steps_of_batches [OF that, of "length (batches dataloader)"] by simp
  with a show ?thesis by blast
qed


lemma ex_train_batch:
  assumes "accum \<noteq> 0"
  shows "\<exists>st'. train_batch ex_train_model ex_criterion 3 accum 0 10 i ex_batch st = Inr st'"
  using assms
  by (simp add: train_batch_def ex_train_model_def ex_batch_def ex_criterion_def
      combined_loss_def getitem_def one_hot_def fake_probs_def Let_def)

lemma ex_train_loop:
  assumes "accum \<noteq> 0"
  shows "\<exists>st'. train_loop ex_train_model ex_criterion 3 accum 0 10 i (replicate n ex_batch) st
           = Inr st'"
proof (induction n arbitrary: i st)
  case 0
  show ?case by simp
next
  case (Suc n)
  from ex_train_batch [OF assms, of i st] obtain st1 where
    "train_batch ex_train_model ex_criterion 3 accum 0 10 i ex_batch st = Inr st1" by blast
  with Suc [of "Suc i" st1] show ?case by simp
qed

lemma ex_train_epoch:
  assumes "accum \<noteq> 0" and "0 < N"
  shows "\<exists>events metrics.
           train_epoch ex_score ex_score ex_train_model
             \<lparr>dataset_len = N, batches = replicate n ex_batch\<rparr> ex_criterion 3 accum 0 10
           = Inr (events, metrics)"
proof -
  from ex_train_loop [OF assms(1), of 0 n] obtain st where
    "train_loop ex_train_model ex_criterion 3 accum 0 10 0 (replicate n ex_batch)
       \<lparr>running_loss = Num 0, running_cls_loss = Num 0, running_cons_loss = Num 0,
        preds_all = [], labels_all = [], opt_log = [ZeroGrad]\<rparr> = Inr st"
    by blast
  then show ?thesis
    using assms by (simp add: train_epoch_def py_div_def ex_score_def Let_def)
qed

lemma ex_detector_train_epoch:
  "train_epoch ex_score ex_score (call_detector ex_detector 2)
       \<lparr>dataset_len = 10, batches = replicate 10 (ex_frames, [0])\<rparr> ex_criterion 4 3 0 10
     = Inl (KeyError ''tcm_inconsistency'')"
proof -
  have "combined_loss [''logits'' \<mapsto> Mat 1 2 [[Num 0, Num 0]], ''dama_feats'' \<mapsto> Mat 1 1 [[Num 0]],
            ''tcm_consistency'' \<mapsto> Mat 1 2 [[Num 0, Num 0]]] [0] ex_criterion 0 10
     = Inl (KeyError ''tcm_inconsistency'')"
    by (simp add: combined_loss_def getitem_def one_hot_def)
  then have "train_batch (call_detector ex_detector 2) ex_criterion 4 3 0 10 0 (ex_frames, [0]) st
      = Inl (KeyError ''tcm_inconsistency'')" for st
    by (simp add: train_batch_def call_detector_train ex_forward)
  moreover have "replicate 10 (ex_frames, [0::int]) = (ex_frames, [0]) # replicate 9 (ex_frames, [0])"
    by (simp add: numeral_eq_Suc)
  ultimately show ?thesis
    by (simp add: train_epoch_def)
qed

theorem train_epoch_optimizer_steps_witness:
  "(\<exists>metrics.
      train_epoch ex_score ex_score ex_train_model
        \<lparr>dataset_len = 30, batches = replicate 10 ex_batch\<rparr> ex_criterion 3 3 0 10
      = Inr ([ZeroGrad, Backward, Backward, Backward, Step, ZeroGrad,
              Backward, Backward, Backward, Step, ZeroGrad,
              Backward, Backward, Backward, Step, ZeroGrad, Backward], metrics))
   \<and> train_epoch ex_score ex_score (call_detector ex_detector 2)
       \<lparr>dataset_len = 10, batches = replicate 10 (ex_frames, [0])\<rparr> ex_criterion 4 3 0 10
     = Inl (KeyError ''tcm_inconsistency'')"
proof -
  from ex_train_epoch [of 3 30 10] obtain events metrics where
    r: "train_epoch ex_score ex_score ex_train_model
          \<lparr>dataset_len = 30, batches = replicate 10 ex_batch\<rparr> ex_criterion 3 3 0 10
        = Inr (events, metrics)"
    by auto
  have u: "[0..<10] = [0, 1, 2, 3, 4, 5, 6, 7, 8, 9]"
    by code_simp
  from train_epoch_optimizer_steps [OF r]
  have "events = [ZeroGrad, Backward, Backward, Backward, Step, ZeroGrad,
              Backward, Backward, Backward, Step, ZeroGrad,
              Backward, Backward, Backward, Step, ZeroGrad, Backward]"
    by (simp add: u batch_events_def)
  with r ex_detector_train_epoch show ?thesis by blast
qed

lemma train_loop_sums:
  assumes "train_loop model criterion bs accum ep mx i rest st = Inr st'"
    and "\<forall>b\<in>set rest. batch_loss model criterion bs ep mx b
           = Inr (Num (L b), \<lparr>cls_loss = Num (C b), incons_loss = Num (K b), orth_loss = Q b\<rparr>)"
    and "running_loss st = Num rl"
    and "running_cls_loss st = Num rc"
    and "running_cons_loss st = Num ri"
  shows "running_loss st'
           = Num (rl + (\<Sum>b\<leftarrow>rest. L b / real_of_int accum * real (size0 (fst b))))
       \<and> running_cls_loss st' = Num (rc + (\<Sum>b\<leftarrow>rest. C b * real (size0 (fst b))))
       \<and> running_cons_loss st' = Num (ri + (\<Sum>b\<leftarrow>rest. K b * real (size0 (fst b))))"
  using assms
proof (induction rest arbitrary: i st rl rc ri)
  case Nil
  then show ?case by simp
next
  case (Cons b rest)
  from Cons.prems(1) obtain st1 where
    b: "train_batch model criterion bs accum ep mx i b st = Inr st1"
    and r: "train_loop model criterion bs accum ep mx (Suc i) rest st1 = Inr st'"
    by (auto simp: ebind_eq_Inr)
  from Cons.prems(2) have
    bl: "batch_loss model criterion bs ep mx b
           = Inr (Num (L b), \<lparr>cls_loss = Num (C b), incons_loss = Num (K b), orth_loss = Q b\<rparr>)"
    by simp
  from train_batch_Inr [OF b] bl Cons.prems(3,4,5) have
    s1: "running_loss st1 = Num (rl + L b / real_of_int accum * real (size0 (fst b)))"
    and s2: "running_cls_loss st1 = Num (rc + C b * real (size0 (fst b)))"
    and s3: "running_cons_loss st1 = Num (ri + K b * real (size0 (fst b)))"
    by auto
  from Cons.prems(2) have rest: "\<forall>b\<in>set rest. batch_loss model criterion bs ep mx b
           = Inr (Num (L b), \<lparr>cls_loss = Num (C b), incons_loss = Num (K b), orth_loss = Q b\<rparr>)"
    by simp
  from Cons.IH [OF r rest s1 s2 s3] show ?case
    by (simp add: add.assoc)
qed

text \<open>
  Claim C10. The loop of \<open>train_epoch\<close> adds to \<open>running_loss\<close> the loss of the batch
  after its division by \<open>accum_steps\<close>, and to the sums of the components their values
  as they are, each weighted by the size of the batch. So whenever the epoch returns, on
  batches with finite losses, the reported \<open>loss\<close> is the weighted average of the total
  losses divided by \<open>accum_steps\<close>, the reported \<open>cls_loss\<close> and \<open>incons_loss\<close> are plain
  weighted averages, and for \<open>accum_steps > 1\<close> the reported \<open>loss\<close> is below the reported
  \<open>cls_loss\<close> when the total loss of each batch is its classification loss and the
  latter averages to a positive value.
\<close>

theorem epoch_loss_scaled_by_accum_steps:
  assumes "train_epoch roc acc model dataloader criterion bs accum_steps ep mx
             = Inr (events, metrics)"
    and "\<forall>b\<in>set (batches dataloader). batch_loss model criterion bs ep mx b
           = Inr (Num (L b), \<lparr>cls_loss = Num (C b), incons_loss = Num (K b), orth_loss = Q b\<rparr>)"
  shows "metrics ''loss''
           = Some (Num ((\<Sum>b\<leftarrow>batches dataloader. L b * real (size0 (fst b)))
                          / real (dataset_len dataloader) / real_of_int accum_steps))
       \<and> metrics ''cls_loss''
           = Some (Num ((\<Sum>b\<leftarrow>batches dataloader. C b * real (size0 (fst b)))
                          / real (dataset_len dataloader)))
       \<and> metrics ''incons_loss''
           = Some (Num ((\<Sum>b\<leftarrow>batches dataloader. K b * real (size0 (fst b)))
                          / real (dataset_len dataloader)))
       \<and> (1 < accum_steps \<and> (\<forall>b\<in>set (batches dataloader). L b = C b)
            \<and> 0 < (\<Sum>b\<leftarrow>batches dataloader. C b * real (size0 (fst b)))
          \<longrightarrow> (\<exists>l c. metrics ''loss'' = Some (Num l) \<and> metrics ''cls_loss'' = Some (Num c)
                 \<and> l < c))"
proof -
  define N where "N = dataset_len dataloader"
  define SL where "SL = (\<Sum>b\<leftarrow>batches dataloader. L b * real (size0 (fst b)))"
  define SC where "SC = (\<Sum>b\<leftarrow>batches dataloader. C b * real (size0 (fst b)))"
  define SI where "SI = (\<Sum>b\<leftarrow>batches dataloader. K b * real (size0 (fst b)))"
  from assms(1) obtain st el ec ei where
    l: "train_loop model criterion bs accum_steps ep mx 0 (batches dataloader)
          \<lparr>running_loss = Num 0, running_cls_loss = Num 0, running_cons_loss = Num 0,
           preds_all = [], labels_all = [], opt_log = [ZeroGrad]\<rparr> = Inr st"
    and a: "accum_steps \<noteq> 0"
    and d1: "py_div (running_loss st) N = Inr el"
    and d2: "py_div (running_cls_loss st) N = Inr ec"
    and d3: "py_div (running_cons_loss st) N = Inr ei"
    and m1: "metrics ''loss'' = Some el"
    and m2: "metrics ''cls_loss'' = Some ec"
    and m3: "metrics ''incons_loss'' = Some ei"
    unfolding train_epoch_def N_def
    by (auto simp: ebind_eq_Inr Let_def split: if_splits)
  from train_loop_sums [OF l assms(2), of 0 0 0] have
    r1: "running_loss st
           = Num (\<Sum>b\<leftarrow>batches dataloader. L b / real_of_int accum_steps * real (size0 (fst b)))"
    and r2: "running_cls_loss st = Num SC"
    and r3: "running_cons_loss st = Num SI"
    by (simp_all add: SC_def SI_def)
  have "(\<Sum>b\<leftarrow>xs. L b / real_of_int accum_steps * real (size0 (fst b)))
      = (\<Sum>b\<leftarrow>xs. L b * real (size0 (fst b))) / real_of_int accum_steps"
    for xs :: "('a frame_batch \<times> int list) list"
    by (induction xs) (simp_all add: add_divide_distrib)
  then have "(\<Sum>b\<leftarrow>batches dataloader. L b / real_of_int accum_steps * real (size0 (fst b)))
      = SL / real_of_int accum_steps"
    unfolding SL_def by blast
  with r1 have r1': "running_loss st = Num (SL / real_of_int accum_steps)" by simp
  from d1 have n: "N \<noteq> 0" by (auto simp: py_div_def split: if_splits)
  from d1 r1' n have e1: "el = Num (SL / real N / real_of_int accum_steps)"
    by (auto simp: py_div_def mult.commute)
  from d2 r2 n have e2: "ec = Num (SC / real N)"
    by (simp add: py_div_def)
  from d3 r3 n have e3: "ei = Num (SI / real N)"
    by (simp add: py_div_def)
  have less: "SL / real N / real_of_int accum_steps < SC / real N"
    if "1 < accum_steps" and "\<forall>b\<in>set (batches dataloader). L b = C b" and "0 < SC"
  proof -
    have "SL = SC"
      unfolding SL_def SC_def using that(2)
      by (intro arg_cong [where f = sum_list] map_cong) auto
    moreover have x: "0 < SC / real N" using that(3) n by simp
    moreover have a: "1 < real_of_int accum_steps" using that(1) by simp
    moreover have "x / a < x" if "0 < x" and "1 < a" for x a :: real
      using that by (simp add: field_simps)
    ultimately show ?thesis
      by blast
  qed
  show ?thesis
    unfolding m1 m2 m3 e1 e2 e3 SL_def [symmetric] SC_def [symmetric] SI_def [symmetric]
      N_def [symmetric]
    using less by blast
qed


lemma ex_batch_loss:
  "batch_loss ex_train_model ex_criterion 3 0 10 ex_batch
     = Inr (Num 1, \<lparr>cls_loss = Num 1, incons_loss = Num 0, orth_loss = Num 0\<rparr>)"
  by (simp add: batch_loss_def ex_train_model_def ex_batch_def ex_criterion_def
      combined_loss_def getitem_def one_hot_def)

theorem epoch_loss_scaled_by_accum_steps_witness:
  "\<exists>events metrics.
      train_epoch ex_score ex_score ex_train_model
        \<lparr>dataset_len = 6, batches = replicate 2 ex_batch\<rparr> ex_criterion 3 2 0 10
      = Inr (events, metrics)
      \<and> metrics ''loss'' = Some (Num 0.5) \<and> metrics ''cls_loss'' = Some (Num 1)"
proof -
  from ex_train_epoch [of 2 6 2] obtain events metrics where
    r: "train_epoch ex_score ex_score ex_train_model
          \<lparr>dataset_len = 6, batches = replicate 2 ex_batch\<rparr> ex_criterion 3 2 0 10
        = Inr (events, metrics)"
    by auto
  have b: "\<forall>b\<in>set (batches \<lparr>dataset_len = 6, batches = replicate 2 ex_batch\<rparr>).
      batch_loss ex_train_model ex_criterion 3 0 10 b
        = Inr (Num ((\<lambda>b. 1) b),
               \<lparr>cls_loss = Num ((\<lambda>b. 1) b), incons_loss = Num ((\<lambda>b. 0) b),
                  orth_loss = (\<lambda>b. Num 0) b\<rparr>)"
    by (simp add: ex_batch_loss)
  have "size0 (fst ex_batch) = 3" by (simp add: ex_batch_def)
  with epoch_loss_scaled_by_accum_steps [OF r b]
  have "metrics ''loss'' = Some (Num 0.5) \<and> metrics ''cls_loss'' = Some (Num 1)"
    by (simp add: numeral_2_eq_2)
  with r show ?thesis by blast
qed





lemma nsum_Num: "nsum (map Num xs) = Num (sum_list xs)"
  by (induction xs) (simp_all add: nsum_def)

lemma dot_Num:
  "map2 nmul (map Num w) (map Num c) = map Num (map2 (*) w c)"
proof (induction w arbitrary: c)
  case Nil
  show ?case by simp
next
  case (Cons a w)
  show ?case by (cases c) (simp_all add: Cons)
qed













end
